theory Spec2Isabelle
  imports Complex_Main
begin

section \<open>JavaScript dates\<close>

text \<open>
  The dashboard computes with the built-in \<open>Date\<close> objects of JavaScript. A \<open>Date\<close> holds a
  time value, a number of milliseconds; the getters and the constructor
  \<open>new Date(year, monthIndex, day)\<close> read and build it in local time. The definitions below
  follow the arithmetic of ECMA-262 (section "Time Values and Time Range"): \<open>Day\<close> (here
  \<open>DayNumber\<close>),
  \<open>TimeWithinDay\<close>, \<open>DaysInYear\<close>, \<open>DayFromYear\<close>, \<open>YearFromTime\<close>, \<open>InLeapYear\<close>,
  \<open>MonthFromTime\<close>, \<open>DateFromTime\<close>, \<open>WeekDay\<close>, \<open>MakeDay\<close> and \<open>MakeDate\<close>.

  A \<open>Date\<close> of the model is its local time value: the milliseconds between the local
  midnight of 1 January 1970 and the instant, in a time zone whose offset to UTC is constant.
  A difference of two \<open>getTime()\<close> results is then the difference of the two local time values.
  Daylight-saving shifts, the finite range of time values and the rounding of doubles are not
  modelled; an invalid \<open>Date\<close> (time value \<open>NaN\<close>) is \<open>None\<close> where one can arise.
\<close>

type_synonym Date = int

definition msPerDay :: int where
  "msPerDay = 86400000"

definition DayNumber :: "int \<Rightarrow> int" where
  "DayNumber t = t div msPerDay"

definition TimeWithinDay :: "int \<Rightarrow> int" where
  "TimeWithinDay t = t mod msPerDay"

definition DaysInYear :: "int \<Rightarrow> int" where
  "DaysInYear y =
     (if y mod 4 \<noteq> 0 then 365
      else if y mod 100 \<noteq> 0 then 366
      else if y mod 400 \<noteq> 0 then 365
      else 366)"

definition DayFromYear :: "int \<Rightarrow> int" where
  "DayFromYear y =
     365 * (y - 1970) + (y - 1969) div 4 - (y - 1901) div 100 + (y - 1601) div 400"

text \<open>
  ECMA-262 specifies \<open>YearFromTime(t)\<close> as the largest year \<open>y\<close> whose first day is not after
  \<open>t\<close>. \<open>YearFromDay\<close> computes it: the estimate from the mean length of a year is off by one
  year at most, and two comparisons repair it (lemmas \<open>YearFromDay_lower\<close>,
  \<open>YearFromDay_upper\<close> and \<open>YearFromDay_unique\<close> below).
\<close>

definition YearFromDay :: "int \<Rightarrow> int" where
  "YearFromDay d =
     (let y = 1970 + (400 * d) div 146097
      in if DayFromYear (y + 1) \<le> d then y + 1
         else if DayFromYear y \<le> d then y
         else y - 1)"

definition YearFromTime :: "int \<Rightarrow> int" where
  "YearFromTime t = YearFromDay (DayNumber t)"

definition InLeapYear :: "int \<Rightarrow> int" where
  "InLeapYear t = (if DaysInYear (YearFromTime t) = 366 then 1 else 0)"

definition DayWithinYear :: "int \<Rightarrow> int" where
  "DayWithinYear t = DayNumber t - DayFromYear (YearFromTime t)"

text \<open>The day within the year at which month \<open>m\<close> (0 to 11) starts; \<open>l\<close> is 1 in a leap year.\<close>

definition MonthStart :: "int \<Rightarrow> int \<Rightarrow> int" where
  "MonthStart l m =
     (if m = 0 then 0
      else if m = 1 then 31
      else if m = 2 then 59 + l
      else if m = 3 then 90 + l
      else if m = 4 then 120 + l
      else if m = 5 then 151 + l
      else if m = 6 then 181 + l
      else if m = 7 then 212 + l
      else if m = 8 then 243 + l
      else if m = 9 then 273 + l
      else if m = 10 then 304 + l
      else 334 + l)"

definition MonthFromTime :: "int \<Rightarrow> int" where
  "MonthFromTime t =
     (let d = DayWithinYear t; l = InLeapYear t
      in if d < 31 then 0
         else if d < 59 + l then 1
         else if d < 90 + l then 2
         else if d < 120 + l then 3
         else if d < 151 + l then 4
         else if d < 181 + l then 5
         else if d < 212 + l then 6
         else if d < 243 + l then 7
         else if d < 273 + l then 8
         else if d < 304 + l then 9
         else if d < 334 + l then 10
         else 11)"

definition DateFromTime :: "int \<Rightarrow> int" where
  "DateFromTime t = DayWithinYear t - MonthStart (InLeapYear t) (MonthFromTime t) + 1"

definition WeekDay :: "int \<Rightarrow> int" where
  "WeekDay t = (DayNumber t + 4) mod 7"

definition MakeDay :: "int \<Rightarrow> int \<Rightarrow> int \<Rightarrow> int" where
  "MakeDay yr m dt =
     (let ym = yr + m div 12; mn = m mod 12
      in DayFromYear ym + MonthStart (if DaysInYear ym = 366 then 1 else 0) mn + dt - 1)"

definition MakeDate :: "int \<Rightarrow> int \<Rightarrow> int" where
  "MakeDate day time = day * msPerDay + time"

text \<open>The getters and setters of \<open>Date.prototype\<close> that the dashboard calls.\<close>

definition getTime :: "Date \<Rightarrow> int" where
  "getTime t = t"

definition getFullYear :: "Date \<Rightarrow> int" where
  "getFullYear t = YearFromTime t"

definition getMonth :: "Date \<Rightarrow> int" where
  "getMonth t = MonthFromTime t"

definition getDate :: "Date \<Rightarrow> int" where
  "getDate t = DateFromTime t"

definition getDay :: "Date \<Rightarrow> int" where
  "getDay t = WeekDay t"

definition setDate :: "Date \<Rightarrow> int \<Rightarrow> Date" where
  "setDate t dt = MakeDate (MakeDay (YearFromTime t) (MonthFromTime t) dt) (TimeWithinDay t)"

definition setHours :: "Date \<Rightarrow> int \<Rightarrow> int \<Rightarrow> int \<Rightarrow> int \<Rightarrow> Date" where
  "setHours t h m s ms = MakeDate (DayNumber t) (((h * 60 + m) * 60 + s) * 1000 + ms)"

text \<open>
  \<open>new Date(year, monthIndex, day)\<close>: local midnight of the day. The constructor reads a
  year from 0 to 99 as a year of the twentieth century.
\<close>

definition new_Date :: "int \<Rightarrow> int \<Rightarrow> int \<Rightarrow> Date" where
  "new_Date y m dt =
     (let yr = (if 0 \<le> y \<and> y \<le> 99 then 1900 + y else y)
      in MakeDate (MakeDay yr m dt) 0)"

section \<open>The ISO week of a date\<close>

record ISOWeek =
  year :: int
  week :: int

text \<open>
  \<open>weekNumberOf target firstDayOfYear\<close> is the expression
  \<open>Math.ceil((((target.getTime() - firstDayOfYear.getTime()) / 86400000) + 1) / 7)\<close>.
\<close>

definition weekNumberOf :: "Date \<Rightarrow> Date \<Rightarrow> int" where
  "weekNumberOf target firstDayOfYear =
     \<lceil>((real_of_int (getTime target - getTime firstDayOfYear) / 86400000) + 1) / 7\<rceil>"

function getISOWeek :: "Date \<Rightarrow> ISOWeek" where
  "getISOWeek date =
     (let dayOfWeek = (if getDay date = 0 then 7 else getDay date);
          target = setDate date (getDate date + (4 - dayOfWeek));
          firstDayOfYear = new_Date (getFullYear target) 0 1;
          weekNumber = weekNumberOf target firstDayOfYear;
          isoYear = getFullYear target
      in if weekNumber > 52 \<and> weekNumberOf (new_Date isoYear 11 31) firstDayOfYear < 53
         then \<lparr>year = isoYear + 1, week = 1\<rparr>
         else if weekNumber = 0
         then (let prevYear = isoYear - 1;
                   lastDayOfPrevYear = new_Date prevYear 11 31;
                   prevYearResult = getISOWeek lastDayOfPrevYear
               in \<lparr>year = prevYear, week = week prevYearResult\<rparr>)
         else if getMonth date < 3 \<and> isoYear > getFullYear date
         then \<lparr>year = getFullYear date, week = weekNumber\<rparr>
         else \<lparr>year = isoYear, week = weekNumber\<rparr>)"
  by pat_completeness auto


subsection \<open>Facts about days and years\<close>

lemma div_bounds:
  fixes x n :: int
  assumes "0 < n"
  shows "n * (x div n) \<le> x" and "x < n * (x div n) + n"
proof -
  have "x = n * (x div n) + x mod n" by simp
  moreover have "0 \<le> x mod n" "x mod n < n" using assms by simp_all
  ultimately show "n * (x div n) \<le> x" and "x < n * (x div n) + n" by linarith+
qed

lemma div_succ:
  fixes x n :: int
  assumes "0 < n"
  shows "(x + 1) div n = x div n + (if (x + 1) mod n = 0 then 1 else 0)"
proof (cases "(x + 1) mod n = 0")
  case True
  have "x + 1 = n * ((x + 1) div n) + (x + 1) mod n" by simp
  with True have "x = n * ((x + 1) div n - 1) + (n - 1)" by (simp add: algebra_simps)
  then have "x div n = (x + 1) div n - 1"
    using int_div_pos_eq [of x n "(x + 1) div n - 1" "n - 1"] assms by simp
  with True show ?thesis by simp
next
  case False
  have e: "x + 1 = n * ((x + 1) div n) + (x + 1) mod n" by simp
  have "0 \<le> (x + 1) mod n" "(x + 1) mod n < n" using assms by simp_all
  with False have r: "0 \<le> (x + 1) mod n - 1" "(x + 1) mod n - 1 < n" by linarith+
  from e have "x = n * ((x + 1) div n) + ((x + 1) mod n - 1)" by linarith
  then have "x div n = (x + 1) div n"
    using int_div_pos_eq [of x n "(x + 1) div n" "(x + 1) mod n - 1"] r by simp
  with False show ?thesis by simp
qed

lemma mod_shift:
  "((y::int) - 1900) mod 100 = y mod 100"
  "((y::int) - 1600) mod 400 = y mod 400"
  "((y::int) - 1968) mod 4 = y mod 4"
  using mod_mult_self2 [of y 100 "-19"] mod_mult_self2 [of y 400 "-4"] mod_mult_self2 [of y 4 "-492"]
  by simp_all

lemma mod_100_4: "(y::int) mod 100 = 0 \<Longrightarrow> y mod 4 = 0"
  using mod_mod_cancel [of 4 100 y] by simp

lemma mod_400_100: "(y::int) mod 400 = 0 \<Longrightarrow> y mod 100 = 0"
  using mod_mod_cancel [of 100 400 y] by simp

lemma DayFromYear_step: "DayFromYear (y + 1) = DayFromYear y + DaysInYear y"
proof -
  have a: "(y + 1 - 1969) div 4 = (y - 1969) div 4 + (if y mod 4 = 0 then 1 else 0)"
    using div_succ [of 4 "y - 1969"] mod_shift(3) [of y] by (simp add: algebra_simps)
  have b: "(y + 1 - 1901) div 100 = (y - 1901) div 100 + (if y mod 100 = 0 then 1 else 0)"
    using div_succ [of 100 "y - 1901"] mod_shift(1) [of y] by (simp add: algebra_simps)
  have c: "(y + 1 - 1601) div 400 = (y - 1601) div 400 + (if y mod 400 = 0 then 1 else 0)"
    using div_succ [of 400 "y - 1601"] mod_shift(2) [of y] by (simp add: algebra_simps)
  show ?thesis
    unfolding DayFromYear_def DaysInYear_def a b c
    using mod_100_4 [of y] mod_400_100 [of y] by auto
qed

lemma DaysInYear_range: "DaysInYear y = 365 \<or> DaysInYear y = 366"
  by (simp add: DaysInYear_def)

lemma YearFromDay_window:
  fixes d :: int
  defines "q \<equiv> (400 * d) div 146097"
  shows "DayFromYear (1970 + q - 1) \<le> d" and "d < DayFromYear (1970 + q + 2)"
proof -
  have q: "146097 * q \<le> 400 * d" "400 * d < 146097 * q + 146097"
    unfolding q_def using div_bounds [of 146097 "400 * d"] by simp_all
  have a: "4 * ((q + 3) div 4) \<le> q + 3" "q + 3 < 4 * ((q + 3) div 4) + 4"
          "4 * (q div 4) \<le> q" "q < 4 * (q div 4) + 4"
    using div_bounds [of 4 "q + 3"] div_bounds [of 4 q] by simp_all
  have b: "100 * ((q + 71) div 100) \<le> q + 71" "q + 71 < 100 * ((q + 71) div 100) + 100"
          "100 * ((q + 68) div 100) \<le> q + 68" "q + 68 < 100 * ((q + 68) div 100) + 100"
    using div_bounds [of 100 "q + 71"] div_bounds [of 100 "q + 68"] by simp_all
  have c: "400 * ((q + 371) div 400) \<le> q + 371" "q + 371 < 400 * ((q + 371) div 400) + 400"
          "400 * ((q + 368) div 400) \<le> q + 368" "q + 368 < 400 * ((q + 368) div 400) + 400"
    using div_bounds [of 400 "q + 371"] div_bounds [of 400 "q + 368"] by simp_all
  show "DayFromYear (1970 + q - 1) \<le> d"
    unfolding DayFromYear_def using q a b c by (simp add: algebra_simps) 
  show "d < DayFromYear (1970 + q + 2)"
    unfolding DayFromYear_def using q a b c by (simp add: algebra_simps)
qed

lemma DayFromYear_mono_step: "DayFromYear y < DayFromYear (y + 1)"
  using DayFromYear_step [of y] DaysInYear_range [of y] by linarith

lemma DayFromYear_mono: "y \<le> z \<Longrightarrow> DayFromYear y \<le> DayFromYear z"
proof -
  have "DayFromYear y \<le> DayFromYear (y + int n)" for n
  proof (induction n)
    case 0
    show ?case by simp
  next
    case (Suc n)
    have e: "y + int (Suc n) = (y + int n) + 1" by simp
    show ?case unfolding e using Suc DayFromYear_mono_step [of "y + int n"] by linarith
  qed
  from this [of "nat (z - y)"] show "y \<le> z \<Longrightarrow> DayFromYear y \<le> DayFromYear z" by simp
qed

lemma YearFromDay_lower: "DayFromYear (YearFromDay d) \<le> d"
  using YearFromDay_window(1) [of d] by (simp add: YearFromDay_def Let_def)

lemma YearFromDay_upper: "d < DayFromYear (YearFromDay d + 1)"
  using YearFromDay_window(2) [of d] by (simp add: YearFromDay_def Let_def)

lemma YearFromDay_unique:
  assumes "DayFromYear y \<le> d" and "d < DayFromYear (y + 1)"
  shows "YearFromDay d = y"
proof (rule ccontr)
  assume n: "YearFromDay d \<noteq> y"
  show False
  proof (cases "YearFromDay d < y")
    case True
    then have "DayFromYear (YearFromDay d + 1) \<le> DayFromYear y" by (intro DayFromYear_mono) simp
    with YearFromDay_upper [of d] assms show False by linarith
  next
    case False
    with n have "DayFromYear (y + 1) \<le> DayFromYear (YearFromDay d)" by (intro DayFromYear_mono) simp
    with YearFromDay_lower [of d] assms show False by linarith
  qed
qed

lemma DayWithinYear_range: "0 \<le> DayWithinYear t" "DayWithinYear t < DaysInYear (YearFromTime t)"
  using YearFromDay_lower [of "DayNumber t"] YearFromDay_upper [of "DayNumber t"] DayFromYear_step [of "YearFromTime t"]
  by (simp_all add: DayWithinYear_def YearFromTime_def)

lemma Day_TimeWithinDay: "MakeDate (DayNumber t) (TimeWithinDay t) = t"
  by (simp add: MakeDate_def DayNumber_def TimeWithinDay_def)

lemma TimeWithinDay_range: "0 \<le> TimeWithinDay t" "TimeWithinDay t < msPerDay"
  by (simp_all add: TimeWithinDay_def msPerDay_def)

lemma MonthFromTime_range: "0 \<le> MonthFromTime t" "MonthFromTime t \<le> 11"
  by (simp_all add: MonthFromTime_def Let_def)

lemma MakeDay_of_time:
  "MakeDay (YearFromTime t) (MonthFromTime t) (DateFromTime t + k) = DayNumber t + k"
proof -
  have m: "MonthFromTime t div 12 = 0" "MonthFromTime t mod 12 = MonthFromTime t"
    using MonthFromTime_range [of t] by simp_all
  show ?thesis
    by (simp add: MakeDay_def Let_def m DateFromTime_def DayWithinYear_def InLeapYear_def)
qed

lemma setDate_shift: "setDate t (getDate t + k) = t + k * msPerDay"
proof -
  have "setDate t (getDate t + k) = MakeDate (DayNumber t + k) (TimeWithinDay t)"
    by (simp add: setDate_def getDate_def MakeDay_of_time)
  also have "\<dots> = MakeDate (DayNumber t) (TimeWithinDay t) + k * msPerDay"
    by (simp add: MakeDate_def algebra_simps)
  finally show ?thesis by (simp add: Day_TimeWithinDay)
qed

lemma Day_shift: "DayNumber (t + k * msPerDay) = DayNumber t + k"
  by (simp add: DayNumber_def msPerDay_def)

lemma TimeWithinDay_shift: "TimeWithinDay (t + k * msPerDay) = TimeWithinDay t"
  by (simp add: TimeWithinDay_def msPerDay_def)

lemma weekNumberOf_div:
  "weekNumberOf target firstDayOfYear = - ((- (target - firstDayOfYear + 86400000)) div 604800000)"
proof -
  have "((real_of_int (target - firstDayOfYear) / 86400000) + 1) / 7
        = of_int (target - firstDayOfYear + 86400000) / of_int 604800000"
    by simp
  then show ?thesis
    unfolding weekNumberOf_def getTime_def by (simp only: ceiling_divide_eq_div)
qed

lemma new_Date_Jan1: "new_Date y 0 1 = DayFromYear (if 0 \<le> y \<and> y \<le> 99 then 1900 + y else y) * msPerDay"
  by (simp add: new_Date_def MakeDate_def MakeDay_def MonthStart_def Let_def)

lemma time_split: "t = DayNumber t * msPerDay + TimeWithinDay t"
  by (simp add: DayNumber_def TimeWithinDay_def)

lemma weekNumber_range:
  assumes "\<not> (0 \<le> getFullYear t \<and> getFullYear t \<le> 99)"
  shows "1 \<le> weekNumberOf t (new_Date (getFullYear t) 0 1)"
    and "weekNumberOf t (new_Date (getFullYear t) 0 1) \<le> 53"
proof -
  define x where "x = t - new_Date (getFullYear t) 0 1"
  have f: "new_Date (getFullYear t) 0 1 = DayFromYear (YearFromTime t) * msPerDay"
    using assms by (auto simp add: new_Date_Jan1 getFullYear_def)
  have "x = DayWithinYear t * msPerDay + TimeWithinDay t"
    unfolding x_def f DayWithinYear_def using time_split [of t] by (simp add: algebra_simps)
  moreover have "DayWithinYear t \<le> 365"
    using DayWithinYear_range(2) [of t] DaysInYear_range [of "YearFromTime t"] by linarith
  ultimately have x: "0 \<le> x" "x < 366 * 86400000"
    using DayWithinYear_range(1) [of t] TimeWithinDay_range [of t] by (simp_all add: msPerDay_def)
  have w: "weekNumberOf t (new_Date (getFullYear t) 0 1) = - ((- (x + 86400000)) div 604800000)"
    by (simp add: weekNumberOf_div x_def)
  have "(- (x + 86400000)) div 604800000 \<le> (- 86400000) div 604800000"
    using x by (intro zdiv_mono1) simp_all
  then show "1 \<le> weekNumberOf t (new_Date (getFullYear t) 0 1)" unfolding w by simp
  have "(- (367 * 86400000)) div 604800000 \<le> (- (x + 86400000)) div 604800000"
    using x by (intro zdiv_mono1) simp_all
  then show "weekNumberOf t (new_Date (getFullYear t) 0 1) \<le> 53" unfolding w by simp
qed

lemma weekNumber_negative:
  assumes "0 \<le> getFullYear t \<and> getFullYear t \<le> 99"
  shows "weekNumberOf t (new_Date (getFullYear t) 0 1) < 0"
proof -
  define y where "y = YearFromTime t"
  define x where "x = t - new_Date (getFullYear t) 0 1"
  have y: "0 \<le> y" "y \<le> 99" using assms by (simp_all add: y_def getFullYear_def)
  have f: "new_Date (getFullYear t) 0 1 = DayFromYear (1900 + y) * msPerDay"
    using assms by (simp add: new_Date_Jan1 getFullYear_def y_def)
  have "DayNumber t < DayFromYear (y + 1)"
    unfolding y_def YearFromTime_def by (rule YearFromDay_upper)
  also have "\<dots> \<le> DayFromYear 100" using y by (intro DayFromYear_mono) simp
  finally have d: "DayNumber t < DayFromYear 100" .
  have "DayFromYear 1900 \<le> DayFromYear (1900 + y)" using y by (intro DayFromYear_mono) simp
  with d have "DayNumber t - DayFromYear (1900 + y) < DayFromYear 100 - DayFromYear 1900" by linarith
  also have "\<dots> = - 657436" by (simp add: DayFromYear_def)
  finally have "DayNumber t - DayFromYear (1900 + y) \<le> - 657437" by simp
  moreover have "x = (DayNumber t - DayFromYear (1900 + y)) * msPerDay + TimeWithinDay t"
    unfolding x_def f using time_split [of t] by (simp add: algebra_simps)
  ultimately have x: "x + 86400000 \<le> - 604800000"
    using TimeWithinDay_range [of t] by (simp add: msPerDay_def)
  have w: "weekNumberOf t (new_Date (getFullYear t) 0 1) = - ((- (x + 86400000)) div 604800000)"
    by (simp add: weekNumberOf_div x_def)
  have "604800000 div 604800000 \<le> (- (x + 86400000)) div (604800000::int)"
    using x by (intro zdiv_mono1) simp_all
  then show ?thesis unfolding w by simp
qed

lemma weekNumber_nonzero: "weekNumberOf t (new_Date (getFullYear t) 0 1) \<noteq> 0"
  using weekNumber_range(1) [of t] weekNumber_negative [of t] by fastforce


text \<open>
  The recursive call of \<open>getISOWeek\<close> stands under \<open>weekNumber === 0\<close>, which no date
  reaches (\<open>weekNumber_nonzero\<close>): the function returns for every date.
\<close>

termination getISOWeek
  by (relation "{}") (simp_all add: setDate_shift weekNumber_nonzero)

declare getISOWeek.simps [simp del]







definition getLastISOWeekOfYear :: "int \<Rightarrow> int" where
  "getLastISOWeekOfYear y =
     (let lastDay = new_Date y 11 31;
          isoWeek = getISOWeek lastDay
      in if year isoWeek > y
         then (let dec24 = new_Date y 11 24 in week (getISOWeek dec24))
         else week isoWeek)"

section \<open>JavaScript strings and numbers in period keys\<close>

text \<open>
  A string is a list of characters. A number that a period key is parsed into or printed
  from is an integer or \<open>NaN\<close>: \<open>None\<close> is \<open>NaN\<close>.
\<close>

definition isDigit :: "char \<Rightarrow> bool" where
  "isDigit c = (c \<in> set ''0123456789'')"

definition isHexDigit :: "char \<Rightarrow> bool" where
  "isHexDigit c = (c \<in> set ''0123456789abcdefABCDEF'')"

definition isWhiteSpace :: "char \<Rightarrow> bool" where
  "isWhiteSpace c = (c \<in> {CHR '' '', CHR 0x09, CHR 0x0A, CHR 0x0B, CHR 0x0C, CHR 0x0D, CHR 0xA0})"

definition digitValue :: "char \<Rightarrow> int" where
  "digitValue c =
     (let n = int (of_char c)
      in if 48 \<le> n \<and> n \<le> 57 then n - 48
         else if 97 \<le> n \<and> n \<le> 102 then n - 87
         else n - 55)"

definition digitChar :: "nat \<Rightarrow> char" where
  "digitChar n = ''0123456789'' ! (n mod 10)"

text \<open>The value of a digit string in a radix, most significant digit first.\<close>

definition digitsValue :: "int \<Rightarrow> string \<Rightarrow> int" where
  "digitsValue radix ds = foldl (\<lambda>a c. a * radix + digitValue c) 0 ds"

text \<open>
  \<open>parseInt(s)\<close> with no radix: leading white space and a sign are skipped, a prefix
  \<open>0x\<close> or \<open>0X\<close> selects radix 16, the longest run of digits is read, and no digit at all
  gives \<open>NaN\<close>.
\<close>

definition parseInt :: "string \<Rightarrow> int option" where
  "parseInt s =
     (let t = dropWhile isWhiteSpace s;
          neg = (t \<noteq> [] \<and> hd t = CHR ''-'');
          u = (if t \<noteq> [] \<and> (hd t = CHR ''-'' \<or> hd t = CHR ''+'') then tl t else t);
          hex = (take 2 u = ''0x'' \<or> take 2 u = ''0X'');
          ds = (if hex then takeWhile isHexDigit (drop 2 u) else takeWhile isDigit u);
          v = digitsValue (if hex then 16 else 10) ds
      in if ds = [] then None else Some (if neg then - v else v))"

text \<open>\<open>parseInt\<close> of a value that may be \<open>undefined\<close> (a missing array element): \<open>NaN\<close>.\<close>

definition parseIntU :: "string option \<Rightarrow> int option" where
  "parseIntU s = (case s of None \<Rightarrow> None | Some t \<Rightarrow> parseInt t)"

fun digitsOf :: "nat \<Rightarrow> string" where
  "digitsOf n = (if n < 10 then [digitChar n] else digitsOf (n div 10) @ [digitChar (n mod 10)])"

declare digitsOf.simps [simp del]

text \<open>The string of a number inside a template literal \<open>`${n}`\<close>.\<close>

definition toString :: "int option \<Rightarrow> string" where
  "toString n =
     (case n of
        None \<Rightarrow> ''NaN''
      | Some i \<Rightarrow> if i < 0 then CHR ''-'' # digitsOf (nat (- i)) else digitsOf (nat i))"

text \<open>Arithmetic and comparison with \<open>NaN\<close>: a sum with \<open>NaN\<close> is \<open>NaN\<close>, a comparison is false.\<close>

definition numAdd :: "int option \<Rightarrow> int \<Rightarrow> int option" where
  "numAdd a k = map_option (\<lambda>i. i + k) a"

definition numSub :: "int option \<Rightarrow> int option \<Rightarrow> int option" where
  "numSub a b = (case (a, b) of (Some i, Some j) \<Rightarrow> Some (i - j) | _ \<Rightarrow> None)"

definition numGreater :: "int option \<Rightarrow> int \<Rightarrow> bool" where
  "numGreater a k = (case a of None \<Rightarrow> False | Some i \<Rightarrow> i > k)"

text \<open>\<open>s.split(c)\<close> for a separator of one character.\<close>

fun split :: "char \<Rightarrow> string \<Rightarrow> string list" where
  "split c [] = [[]]"
| "split c (x # xs) =
     (if x = c then [] # split c xs
      else (case split c xs of [] \<Rightarrow> [[x]] | p # ps \<Rightarrow> (x # p) # ps))"

text \<open>An array element that may be missing: \<open>a[i]\<close> is \<open>undefined\<close> beyond the length.\<close>

definition elemAt :: "'a list \<Rightarrow> nat \<Rightarrow> 'a option" where
  "elemAt xs i = (if i < length xs then Some (xs ! i) else None)"

definition startsWith :: "string \<Rightarrow> string \<Rightarrow> bool" where
  "startsWith s p = (take (length p) s = p)"

definition substring :: "string \<Rightarrow> nat \<Rightarrow> string" where
  "substring s i = drop i s"

definition padStart :: "string \<Rightarrow> nat \<Rightarrow> char \<Rightarrow> string" where
  "padStart s n c = replicate (n - length s) c @ s"

section \<open>The platform\<close>

text \<open>
  Four built-ins are taken as parameters, since their results are not fixed by the program:
  \<open>parseFloat\<close>, \<open>new Date(string)\<close> (the local time value of the parsed date, \<open>None\<close> for
  an invalid date), \<open>String.prototype.localeCompare\<close> and \<open>Number.prototype.toString\<close> on
  a number that need not be an integer.
\<close>

record platform =
  parseFloat :: "string \<Rightarrow> real option"
  dateFromString :: "string \<Rightarrow> Date option"
  localeCompare :: "string \<Rightarrow> string \<Rightarrow> int"
  numberToString :: "real \<Rightarrow> string"

section \<open>Summaries, trend data and comparison rows\<close>

datatype TimeUnit = Day | Week | Month | Quarter | Year

record KpiSummary =
  impressions :: real
  clicks :: real
  cost :: real
  conversions :: real
  revenue :: real
  profit :: real
  ctr :: real
  cpc :: real
  cpa :: real
  convRate :: real
  roas :: real
  clv :: real

text \<open>\<open>TrendData\<close> is \<open>{ period, ...kpiSummary }\<close>.\<close>

record TrendData = KpiSummary +
  period :: string

text \<open>\<open>calculateChange\<close>, and \<open>Number(x) || 0\<close> on a number.\<close>

definition calculateChange :: "real \<Rightarrow> real \<Rightarrow> real" where
  "calculateChange current previous =
     (if previous = 0 then 0 else ((current - previous) / previous) * 100)"

definition numberOrZero :: "real \<Rightarrow> real" where
  "numberOrZero x = (if x = 0 then 0 else x)"

text \<open>
  A row of the comparison table. Its field \<open>period\<close> is \<open>rowPeriod\<close> here, and \<open>null\<close> is
  \<open>None\<close>.
\<close>

record Comparison =
  rowPeriod :: string
  current :: real
  previous :: "real option"
  change :: "real option"
  previousYear :: "real option"
  yearOverYearChange :: "real option"

section \<open>Sorting\<close>

datatype error = TypeError

text \<open>
  \<open>Array.prototype.sort\<close> with a comparator: a stable sort. A comparator result \<open>NaN\<close> counts
  as 0, and an exception of the comparator leaves the sort. The model inserts the elements
  one by one from the right; for a comparator that is a consistent order every
  implementation returns this list.
\<close>

fun insertBy :: "('a \<Rightarrow> 'a \<Rightarrow> error + int) \<Rightarrow> 'a \<Rightarrow> 'a list \<Rightarrow> error + 'a list" where
  "insertBy cmp x [] = Inr [x]"
| "insertBy cmp x (y # ys) =
     (case cmp x y of
        Inl e \<Rightarrow> Inl e
      | Inr c \<Rightarrow>
          if c \<le> 0 then Inr (x # y # ys)
          else (case insertBy cmp x ys of Inl e \<Rightarrow> Inl e | Inr r \<Rightarrow> Inr (y # r)))"

fun arraySort :: "('a \<Rightarrow> 'a \<Rightarrow> error + int) \<Rightarrow> 'a list \<Rightarrow> error + 'a list" where
  "arraySort cmp [] = Inr []"
| "arraySort cmp (x # xs) =
     (case arraySort cmp xs of Inl e \<Rightarrow> Inl e | Inr s \<Rightarrow> insertBy cmp x s)"

definition nanToZero :: "int option \<Rightarrow> int" where
  "nanToZero n = (case n of None \<Rightarrow> 0 | Some i \<Rightarrow> i)"

section \<open>The comparison table of the trends view\<close>

text \<open>
  The comparators \<open>sortPeriodsOldestToNewest\<close> and \<open>sortPeriodsNewestToOldest\<close>, on the
  \<open>period\<close> strings of their two arguments. For quarters, \<open>aQuarter.substring(1)\<close> throws a
  \<open>TypeError\<close> when the key has no second part.
\<close>

definition quarterNumber :: "string option \<Rightarrow> error + int option" where
  "quarterNumber q = (case q of None \<Rightarrow> Inl TypeError | Some s \<Rightarrow> Inr (parseInt (substring s 1)))"

definition sortPeriodsOldestToNewest :: "platform \<Rightarrow> TimeUnit \<Rightarrow> string \<Rightarrow> string \<Rightarrow> error + int" where
  "sortPeriodsOldestToNewest P timeUnit a b =
     (let aYear = elemAt (split CHR ''-'' a) 0; aSub = elemAt (split CHR ''-'' a) 1;
          bYear = elemAt (split CHR ''-'' b) 0; bSub = elemAt (split CHR ''-'' b) 1
      in if timeUnit = Day then Inr (localeCompare P a b)
         else if timeUnit = Week \<or> timeUnit = Month then
           (if aYear \<noteq> bYear then Inr (nanToZero (numSub (parseIntU aYear) (parseIntU bYear)))
            else Inr (nanToZero (numSub (parseIntU aSub) (parseIntU bSub))))
         else if timeUnit = Quarter then
           (if aYear \<noteq> bYear then Inr (nanToZero (numSub (parseIntU aYear) (parseIntU bYear)))
            else (case quarterNumber aSub of
                    Inl e \<Rightarrow> Inl e
                  | Inr aQNum \<Rightarrow>
                      (case quarterNumber bSub of
                         Inl e \<Rightarrow> Inl e
                       | Inr bQNum \<Rightarrow> Inr (nanToZero (numSub aQNum bQNum)))))
         else Inr (nanToZero (numSub (parseInt a) (parseInt b))))"

definition sortPeriodsNewestToOldest :: "platform \<Rightarrow> TimeUnit \<Rightarrow> string \<Rightarrow> string \<Rightarrow> error + int" where
  "sortPeriodsNewestToOldest P timeUnit a b =
     (let aYear = elemAt (split CHR ''-'' a) 0; aSub = elemAt (split CHR ''-'' a) 1;
          bYear = elemAt (split CHR ''-'' b) 0; bSub = elemAt (split CHR ''-'' b) 1
      in if timeUnit = Day then Inr (localeCompare P b a)
         else if timeUnit = Week \<or> timeUnit = Month then
           (if aYear \<noteq> bYear then Inr (nanToZero (numSub (parseIntU bYear) (parseIntU aYear)))
            else Inr (nanToZero (numSub (parseIntU bSub) (parseIntU aSub))))
         else if timeUnit = Quarter then
           (if aYear \<noteq> bYear then Inr (nanToZero (numSub (parseIntU bYear) (parseIntU aYear)))
            else (case quarterNumber aSub of
                    Inl e \<Rightarrow> Inl e
                  | Inr aQNum \<Rightarrow>
                      (case quarterNumber bSub of
                         Inl e \<Rightarrow> Inl e
                       | Inr bQNum \<Rightarrow> Inr (nanToZero (numSub bQNum aQNum)))))
         else Inr (nanToZero (numSub (parseInt b) (parseInt a))))"

text \<open>
  The parts of a period key that the loop body of \<open>generateComparisonTable\<close> reads:
  \<open>currentYear\<close> and \<open>currentSubPeriod\<close>.
\<close>

definition currentYear :: "string \<Rightarrow> int option" where
  "currentYear p = parseIntU (elemAt (split CHR ''-'' p) 0)"

definition currentSubPeriod :: "string \<Rightarrow> string" where
  "currentSubPeriod p =
     (let currentPeriodParts = split CHR ''-'' p
      in if length currentPeriodParts > 1 then currentPeriodParts ! 1 else '''')"

text \<open>
  A date printed as \<open>YYYY-MM-DD\<close> with \<open>getFullYear\<close>, \<open>getMonth() + 1\<close> and \<open>getDate\<close>, the
  last two padded to two characters. The getters of an invalid date give \<open>NaN\<close>.
\<close>

definition formatDay :: "Date option \<Rightarrow> string" where
  "formatDay d =
     toString (map_option getFullYear d) @ ''-'' @
     padStart (toString (map_option (\<lambda>t. getMonth t + 1) d)) 2 CHR ''0'' @ ''-'' @
     padStart (toString (map_option getDate d)) 2 CHR ''0''"

definition setFullYear :: "Date \<Rightarrow> int \<Rightarrow> Date" where
  "setFullYear t y = MakeDate (MakeDay y (MonthFromTime t) (DateFromTime t)) (TimeWithinDay t)"

text \<open>
  The predecessor key of a period key (lines 294 to 339 of the trends view).
  \<open>getLastISOWeekOfYear\<close> of the year \<open>NaN\<close> is \<open>NaN\<close>: every date in it is invalid, the
  getters give \<open>NaN\<close> and no comparison with \<open>NaN\<close> holds.
\<close>

definition previousPeriodKey :: "platform \<Rightarrow> TimeUnit \<Rightarrow> string \<Rightarrow> string" where
  "previousPeriodKey P timeUnit p =
     (case timeUnit of
        Day \<Rightarrow>
          (let currentDate = dateFromString P p;
               previousDate = map_option (\<lambda>t. setDate t (getDate t - 1)) currentDate
           in formatDay previousDate)
      | Week \<Rightarrow>
          (let currentWeek = parseInt (currentSubPeriod p)
           in if numGreater currentWeek 1
              then toString (currentYear p) @ ''-'' @ toString (numAdd currentWeek (- 1))
              else (let lastWeekOfPrevYear = map_option getLastISOWeekOfYear (numAdd (currentYear p) (- 1))
                    in toString (numAdd (currentYear p) (- 1)) @ ''-'' @ toString lastWeekOfPrevYear))
      | Month \<Rightarrow>
          (let currentMonth = parseInt (currentSubPeriod p)
           in if numGreater currentMonth 1
              then toString (currentYear p) @ ''-'' @ toString (numAdd currentMonth (- 1))
              else toString (numAdd (currentYear p) (- 1)) @ ''-12'')
      | Quarter \<Rightarrow>
          (if startsWith (currentSubPeriod p) ''Q''
           then (let currentQuarter = parseInt (substring (currentSubPeriod p) 1)
                 in if numGreater currentQuarter 1
                    then toString (currentYear p) @ ''-Q'' @ toString (numAdd currentQuarter (- 1))
                    else toString (numAdd (currentYear p) (- 1)) @ ''-Q4'')
           else '''')
      | Year \<Rightarrow> toString (numAdd (currentYear p) (- 1)))"

text \<open>
  \<open>prevYearWeeks.sort((a, b) => bWeek - aWeek)[0]\<close>: the comparator of the fallback never
  throws, so the sort returns.
\<close>

definition weekOfKey :: "string \<Rightarrow> int option" where
  "weekOfKey p = parseIntU (elemAt (split CHR ''-'' p) 1)"

definition sortWeeksDescending :: "TrendData list \<Rightarrow> TrendData list" where
  "sortWeeksDescending xs =
     (case arraySort (\<lambda>a b. Inr (nanToZero (numSub (weekOfKey (period b)) (weekOfKey (period a))))) xs of
        Inl e \<Rightarrow> []
      | Inr s \<Rightarrow> s)"

text \<open>The previous period of the bucket at index \<open>i\<close> (lines 341 to 390).\<close>

definition findPreviousPeriod ::
  "platform \<Rightarrow> TimeUnit \<Rightarrow> TrendData list \<Rightarrow> TrendData list \<Rightarrow> nat \<Rightarrow> TrendData option" where
  "findPreviousPeriod P timeUnit sortedTrendData completeTrendData i =
     (let p = period (sortedTrendData ! i);
          key = previousPeriodKey P timeUnit p;
          previousPeriod = (if i > 0 then Some (sortedTrendData ! (i - 1)) else None)
      in if previousPeriod = None \<or> period (the previousPeriod) \<noteq> key
         then (case find (\<lambda>item. period item = key) completeTrendData of
                 Some foundPrevPeriod \<Rightarrow> Some foundPrevPeriod
               | None \<Rightarrow>
                   if timeUnit = Week \<and> parseInt (currentSubPeriod p) = Some 1
                   then (let lastWeekOfPrevYear =
                               map_option getLastISOWeekOfYear (numAdd (currentYear p) (- 1));
                             exactWeekKey =
                               toString (numAdd (currentYear p) (- 1)) @ ''-'' @ toString lastWeekOfPrevYear
                         in case find (\<lambda>item. period item = exactWeekKey) completeTrendData of
                              Some exactWeek \<Rightarrow> Some exactWeek
                            | None \<Rightarrow>
                                (let prevYearWeeks =
                                       filter (\<lambda>item. startsWith (period item)
                                                 (toString (numAdd (currentYear p) (- 1)) @ ''-''))
                                         completeTrendData
                                 in if length prevYearWeeks > 0
                                    then Some (hd (sortWeeksDescending prevYearWeeks))
                                    else previousPeriod))
                   else previousPeriod)
         else previousPeriod)"

text \<open>The same period of the year before (lines 392 to 432); none is sought for years.\<close>

definition previousYearPeriodKey :: "platform \<Rightarrow> TimeUnit \<Rightarrow> string \<Rightarrow> string option" where
  "previousYearPeriodKey P timeUnit p =
     (if timeUnit = Day
      then (let currentDate = dateFromString P p;
                previousYearDate = map_option (\<lambda>t. setFullYear t (getFullYear t - 1)) currentDate
            in Some (formatDay previousYearDate))
      else if timeUnit = Week \<or> timeUnit = Month \<or> timeUnit = Quarter
      then Some (toString (numAdd (currentYear p) (- 1)) @ ''-'' @ currentSubPeriod p)
      else None)"

definition findPreviousYearPeriod ::
  "platform \<Rightarrow> TimeUnit \<Rightarrow> TrendData list \<Rightarrow> TrendData list \<Rightarrow> nat \<Rightarrow> TrendData option" where
  "findPreviousYearPeriod P timeUnit sortedTrendData completeTrendData i =
     (case previousYearPeriodKey P timeUnit (period (sortedTrendData ! i)) of
        None \<Rightarrow> None
      | Some key \<Rightarrow>
          (case find (\<lambda>item. period item = key) sortedTrendData of
             Some r \<Rightarrow> Some r
           | None \<Rightarrow>
               if length completeTrendData > 0
               then find (\<lambda>item. period item = key) completeTrendData
               else None))"

text \<open>The row pushed for index \<open>i\<close> (lines 434 to 445).\<close>

definition comparisonAt ::
  "platform \<Rightarrow> TimeUnit \<Rightarrow> (TrendData \<Rightarrow> real) \<Rightarrow> TrendData list \<Rightarrow> TrendData list \<Rightarrow> nat
   \<Rightarrow> Comparison" where
  "comparisonAt P timeUnit metric sortedTrendData completeTrendData i =
     (let currentPeriod = sortedTrendData ! i;
          previousPeriod = findPreviousPeriod P timeUnit sortedTrendData completeTrendData i;
          previousYearPeriod = findPreviousYearPeriod P timeUnit sortedTrendData completeTrendData i
      in \<lparr>rowPeriod = period currentPeriod,
          current = numberOrZero (metric currentPeriod),
          previous = (case previousPeriod of
                        None \<Rightarrow> None
                      | Some r \<Rightarrow> Some (numberOrZero (metric r))),
          change = (case previousPeriod of
                      None \<Rightarrow> None
                    | Some r \<Rightarrow>
                        Some (calculateChange (numberOrZero (metric currentPeriod))
                                (numberOrZero (metric r)))),
          previousYear = (case previousYearPeriod of
                            None \<Rightarrow> None
                          | Some r \<Rightarrow> Some (numberOrZero (metric r))),
          yearOverYearChange = (case previousYearPeriod of
                                  None \<Rightarrow> None
                                | Some r \<Rightarrow>
                                    Some (calculateChange (numberOrZero (metric currentPeriod))
                                            (numberOrZero (metric r))))\<rparr>)"

text \<open>
  \<open>generateComparisonTable\<close>: no row for fewer than two buckets; otherwise the buckets are
  sorted oldest first, one row is computed per bucket, and the rows are sorted newest first.
  \<open>metric\<close> reads the selected metric of a bucket (\<open>currentPeriod[metric]\<close>).
\<close>

definition generateComparisonTable ::
  "platform \<Rightarrow> TimeUnit \<Rightarrow> (TrendData \<Rightarrow> real) \<Rightarrow> TrendData list \<Rightarrow> TrendData list
   \<Rightarrow> error + Comparison list" where
  "generateComparisonTable P timeUnit metric filteredTrendData completeTrendData =
     (if length filteredTrendData < 2 then Inr []
      else (case arraySort (\<lambda>a b. sortPeriodsOldestToNewest P timeUnit (period a) (period b))
                   filteredTrendData of
              Inl e \<Rightarrow> Inl e
            | Inr sortedTrendData \<Rightarrow>
                arraySort (\<lambda>a b. sortPeriodsNewestToOldest P timeUnit (rowPeriod a) (rowPeriod b))
                  (map (comparisonAt P timeUnit metric sortedTrendData completeTrendData)
                     [0..<length sortedTrendData])))"

section \<open>Canonical records\<close>

text \<open>
  \<open>AdData\<close>: the fields of the interface, with \<open>undefined\<close> as \<open>None\<close> in the optional ones.
  The field names that are not identifiers are written with underscores: \<open>Domain_name\<close> is
  \<open>'Domain name'\<close>, \<open>Impr\<close> is \<open>'Impr.'\<close>, \<open>Impr_Abs_Top\<close> is \<open>'Impr. (Abs. Top) %'\<close>.
\<close>

record AdData =
  Campaign :: string
  Domain_name :: string
  Account_name :: string
  Language :: string
  Campaign_type :: string
  Status :: string
  Date :: string
  processedDate :: "Date option"
  Impr :: string
  Clicks :: string
  Cost :: string
  Conversions :: string
  Revenue :: string
  Profit :: string
  CLV :: string
  Click_share :: string
  Search_impr_share :: string
  Impr_Abs_Top :: string
  Impr_Top :: string
  CTR :: "real option"
  CPC :: "real option"
  CPA :: "real option"
  Conv_rate :: "real option"
  ROAS :: "real option"

section \<open>The metrics calculator\<close>

text \<open>
  \<open>parseNumericValue\<close>. The pattern \<open>/[\<euro>$,]/g\<close> removes the euro sign, the dollar sign and
  the comma; a string of the model holds characters below 256 only, so no euro sign occurs in
  it. \<open>parseFloat\<close> is the platform's, \<open>None\<close> is \<open>NaN\<close>.
\<close>

definition parseNumericValue :: "platform \<Rightarrow> string \<Rightarrow> real" where
  "parseNumericValue P v =
     (if v = [] then 0
      else (let cleanValue = filter (\<lambda>c. c \<noteq> CHR ''$'' \<and> c \<noteq> CHR '','') v;
                numValue = parseFloat P cleanValue
            in case numValue of None \<Rightarrow> 0 | Some x \<Rightarrow> x))"

text \<open>The function that \<open>calculateMetrics\<close> maps over the rows.\<close>

definition calculateMetricsRow :: "platform \<Rightarrow> AdData \<Rightarrow> AdData" where
  "calculateMetricsRow P row =
     (let impressions' = parseNumericValue P (Impr row);
          clicks' = parseNumericValue P (Clicks row);
          cost' = parseNumericValue P (Cost row);
          conversions' = parseNumericValue P (Conversions row);
          revenue' = parseNumericValue P (Revenue row);
          ctr' = (if impressions' > 0 then clicks' / impressions' else 0);
          cpc' = (if clicks' > 0 then cost' / clicks' else 0);
          cpa' = (if conversions' > 0 then cost' / conversions' else 0);
          convRate' = (if clicks' > 0 then conversions' / clicks' else 0);
          roas' = (if cost' > 0 then revenue' / cost' else 0);
          profit' = revenue' - cost';
          clv' = (if conversions' > 0 then revenue' / conversions' else 0)
      in row\<lparr>CTR := Some ctr', CPC := Some cpc', CPA := Some cpa', Conv_rate := Some convRate',
              ROAS := Some roas', Profit := numberToString P profit',
              CLV := numberToString P clv'\<rparr>)"

definition calculateMetrics :: "platform \<Rightarrow> AdData list \<Rightarrow> AdData list" where
  "calculateMetrics P data = map (calculateMetricsRow P) data"

text \<open>\<open>calculateKpiSummary\<close>: the reducer, the initial summary and the rates of the sums.\<close>

definition initialSummary :: KpiSummary where
  "initialSummary =
     \<lparr>impressions = 0, clicks = 0, cost = 0, conversions = 0, revenue = 0, profit = 0,
      ctr = 0, cpc = 0, cpa = 0, convRate = 0, roas = 0, clv = 0\<rparr>"

definition addRow :: "platform \<Rightarrow> KpiSummary \<Rightarrow> AdData \<Rightarrow> KpiSummary" where
  "addRow P acc row =
     (let rowRevenue = parseNumericValue P (Revenue row);
          rowCost = parseNumericValue P (Cost row)
      in acc\<lparr>impressions := impressions acc + parseNumericValue P (Impr row),
              clicks := clicks acc + parseNumericValue P (Clicks row),
              cost := cost acc + parseNumericValue P (Cost row),
              conversions := conversions acc + parseNumericValue P (Conversions row),
              revenue := revenue acc + parseNumericValue P (Revenue row),
              profit := profit acc + (rowRevenue - rowCost)\<rparr>)"

definition calculateKpiSummary :: "platform \<Rightarrow> AdData list \<Rightarrow> KpiSummary" where
  "calculateKpiSummary P data =
     (let summary = foldl (addRow P) initialSummary data
      in summary\<lparr>ctr := (if impressions summary > 0 then clicks summary / impressions summary else 0),
                  cpc := (if clicks summary > 0 then cost summary / clicks summary else 0),
                  cpa := (if conversions summary > 0 then cost summary / conversions summary else 0),
                  convRate := (if clicks summary > 0 then conversions summary / clicks summary else 0),
                  roas := (if cost summary > 0 then revenue summary / cost summary else 0),
                  clv := (if conversions summary > 0 then revenue summary / conversions summary else 0)\<rparr>)"

text \<open>The sum of a counter over the rows.\<close>

definition total :: "platform \<Rightarrow> (AdData \<Rightarrow> string) \<Rightarrow> AdData list \<Rightarrow> real" where
  "total P field data = sum_list (map (\<lambda>row. parseNumericValue P (field row)) data)"

section \<open>The date-range filter\<close>

record DateRange =
  startDate :: string
  endDate :: string

definition trim :: "string \<Rightarrow> string" where
  "trim s = rev (dropWhile isWhiteSpace (rev (dropWhile isWhiteSpace s)))"

text \<open>
  \<open>Number(s)\<close> on a string, for the strings that are integers in decimal digits: white space
  around the number is dropped, the empty string is 0, a sign may stand first. Every other
  string is \<open>NaN\<close> in the model; JavaScript reads some of them as numbers (a fraction, an
  exponent, a radix prefix), and no theorem below depends on what such a string gives.
\<close>

definition toNumber :: "string \<Rightarrow> int option" where
  "toNumber s =
     (let t = trim s;
          neg = (t \<noteq> [] \<and> hd t = CHR ''-'');
          u = (if t \<noteq> [] \<and> (hd t = CHR ''-'' \<or> hd t = CHR ''+'') then tl t else t)
      in if t = [] then Some 0
         else if u \<noteq> [] \<and> list_all isDigit u
         then Some (if neg then - digitsValue 10 u else digitsValue 10 u)
         else None)"

text \<open>
  \<open>normalizeDate\<close>: the three numbers of \<open>dateStr.split('-').map(Number)\<close>, a missing one being
  \<open>undefined\<close>; \<open>new Date\<close> of a \<open>NaN\<close> or \<open>undefined\<close> argument is an invalid date.
\<close>

definition normalizeDate :: "string \<Rightarrow> bool \<Rightarrow> Date option" where
  "normalizeDate dateStr isEndDate =
     (let parts = map toNumber (split CHR ''-'' dateStr)
      in case (elemAt parts 0, elemAt parts 1, elemAt parts 2) of
           (Some (Some y), Some (Some month), Some (Some day)) \<Rightarrow>
             (let date = new_Date y (month - 1) day
              in if isEndDate then Some (setHours date 23 59 59 999)
                 else Some (setHours date 0 0 0 0))
         | _ \<Rightarrow> None)"

text \<open>A row gets the date of its \<open>Date\<close> string when it has no \<open>processedDate\<close> yet.\<close>

definition withProcessedDate :: "platform \<Rightarrow> AdData \<Rightarrow> AdData" where
  "withProcessedDate P row =
     (case processedDate row of
        Some d \<Rightarrow> row
      | None \<Rightarrow>
          (case dateFromString P (Date row) of
             Some date \<Rightarrow> row\<lparr>processedDate := Some date\<rparr>
           | None \<Rightarrow> row))"

text \<open>\<open>rowDate >= bound\<close> and \<open>rowDate <= bound\<close>: false for an invalid bound.\<close>

definition dateGe :: "Date \<Rightarrow> Date option \<Rightarrow> bool" where
  "dateGe t b = (case b of None \<Rightarrow> False | Some s \<Rightarrow> getTime t \<ge> getTime s)"

definition dateLe :: "Date \<Rightarrow> Date option \<Rightarrow> bool" where
  "dateLe t b = (case b of None \<Rightarrow> False | Some e \<Rightarrow> getTime t \<le> getTime e)"

text \<open>
  \<open>filterByDateRange\<close>. The bounds are \<open>null\<close> (\<open>None\<close>) for an empty string and a \<open>Date\<close>
  object, valid or not, otherwise.
\<close>

definition filterByDateRange :: "platform \<Rightarrow> AdData list \<Rightarrow> DateRange \<Rightarrow> AdData list" where
  "filterByDateRange P data dateRange =
     (if startDate dateRange = [] \<and> endDate dateRange = [] then data
      else (let dataWithDates = map (withProcessedDate P) data;
                start = (if startDate dateRange \<noteq> []
                         then Some (normalizeDate (startDate dateRange) False) else None);
                end' = (if endDate dateRange \<noteq> []
                        then Some (normalizeDate (endDate dateRange) True) else None)
            in filter (\<lambda>row.
                 case processedDate row of
                   None \<Rightarrow> False
                 | Some rowDate \<Rightarrow>
                     (case (start, end') of
                        (Some s, Some e) \<Rightarrow> dateGe rowDate s \<and> dateLe rowDate e
                      | (Some s, None) \<Rightarrow> dateGe rowDate s
                      | (None, Some e) \<Rightarrow> dateLe rowDate e
                      | (None, None) \<Rightarrow> True))
               dataWithDates))"


section \<open>The schema mapper\<close>

datatype DataSourceType = GOOGLE_ADS | MICROSOFT_ADS | COMPETITOR_DATA_URL

text \<open>
  More string operations. \<open>toLowerCase\<close> covers the letters below 256; \<open>toUpperCase\<close> is only
  applied to two letters from \<open>a\<close> to \<open>z\<close>.
\<close>

definition toLowerChar :: "char \<Rightarrow> char" where
  "toLowerChar c =
     (let n = of_char c :: nat
      in if (65 \<le> n \<and> n \<le> 90) \<or> (192 \<le> n \<and> n \<le> 222 \<and> n \<noteq> 215) then char_of (n + 32) else c)"

definition toLowerCase :: "string \<Rightarrow> string" where
  "toLowerCase s = map toLowerChar s"

definition isLowerAZ :: "char \<Rightarrow> bool" where
  "isLowerAZ c = (97 \<le> (of_char c :: nat) \<and> (of_char c :: nat) \<le> 122)"

definition toUpperChar :: "char \<Rightarrow> char" where
  "toUpperChar c = (if isLowerAZ c then char_of ((of_char c :: nat) - 32) else c)"

definition toUpperCase :: "string \<Rightarrow> string" where
  "toUpperCase s = map toUpperChar s"

fun includesStr :: "string \<Rightarrow> string \<Rightarrow> bool" where
  "includesStr [] sub = (sub = [])"
| "includesStr (x # xs) sub = (startsWith (x # xs) sub \<or> includesStr xs sub)"

text \<open>\<open>s.indexOf(sub)\<close>, with \<open>None\<close> for -1.\<close>

fun indexOf :: "string \<Rightarrow> string \<Rightarrow> nat option" where
  "indexOf [] sub = (if sub = [] then Some 0 else None)"
| "indexOf (x # xs) sub =
     (if startsWith (x # xs) sub then Some 0 else map_option Suc (indexOf xs sub))"

text \<open>\<open>s.split(sep)\<close> for a separator string; the empty separator cuts between all characters.\<close>

function splitStr :: "string \<Rightarrow> string \<Rightarrow> string list" where
  "splitStr sep s =
     (if sep = [] then map (\<lambda>c. [c]) s
      else if s = [] then [[]]
      else if startsWith s sep then [] # splitStr sep (drop (length sep) s)
      else (case splitStr sep (tl s) of [] \<Rightarrow> [[hd s]] | p # ps \<Rightarrow> (hd s # p) # ps))"
  by pat_completeness auto
termination
  by (relation "measure (\<lambda>(sep, s). length s)") auto

declare splitStr.simps [simp del]

text \<open>
  The date patterns: three runs of digits between a separator, each with a least and a
  greatest length. \<open>threeNumbers CHR ''-'' 4 4 2 2 2 2\<close> is \<open>/^(\d{4})-(\d{2})-(\d{2})$/\<close>.
\<close>

definition digitRun :: "nat \<Rightarrow> nat \<Rightarrow> string \<Rightarrow> bool" where
  "digitRun lo hi s = (lo \<le> length s \<and> length s \<le> hi \<and> list_all isDigit s)"

definition threeNumbers ::
  "char \<Rightarrow> nat \<Rightarrow> nat \<Rightarrow> nat \<Rightarrow> nat \<Rightarrow> nat \<Rightarrow> nat \<Rightarrow> string \<Rightarrow> (string \<times> string \<times> string) option" where
  "threeNumbers sep lo1 hi1 lo2 hi2 lo3 hi3 s =
     (case split sep s of
        [a, b, c] \<Rightarrow>
          if digitRun lo1 hi1 a \<and> digitRun lo2 hi2 b \<and> digitRun lo3 hi3 c then Some (a, b, c)
          else None
      | _ \<Rightarrow> None)"

text \<open>
  \<open>new Date(parseInt(year), parseInt(month) - 1, parseInt(day))\<close> for three digit strings,
  and the same date if it has the year, month and day it was built from.
\<close>

definition dateOfParts :: "string \<Rightarrow> string \<Rightarrow> string \<Rightarrow> Date option" where
  "dateOfParts y m d =
     (case (parseInt y, parseInt m, parseInt d) of
        (Some yn, Some mn, Some dn) \<Rightarrow> Some (new_Date yn (mn - 1) dn)
      | _ \<Rightarrow> None)"

definition validatedDateOfParts :: "string \<Rightarrow> string \<Rightarrow> string \<Rightarrow> Date option" where
  "validatedDateOfParts y m d =
     (case dateOfParts y m d of
        None \<Rightarrow> None
      | Some date \<Rightarrow>
          if Some (getFullYear date) = parseInt y \<and>
             Some (getMonth date) = numAdd (parseInt m) (- 1) \<and>
             Some (getDate date) = parseInt d
          then Some date else None)"

text \<open>\<open>parseDate\<close>; \<open>null\<close> is \<open>None\<close>. No step of it throws.\<close>

definition parseDateFallback :: "platform \<Rightarrow> string \<Rightarrow> Date option" where
  "parseDateFallback P trimmed =
     (let slashFormat =
            (case threeNumbers CHR ''/'' 4 4 1 2 1 2 trimmed of
               Some (y, m, d) \<Rightarrow> dateOfParts y m d
             | None \<Rightarrow> None);
          euroSlashFormat =
            (case threeNumbers CHR ''/'' 1 2 1 2 4 4 trimmed of
               Some (d, m, y) \<Rightarrow> dateOfParts y m d
             | None \<Rightarrow> None)
      in case slashFormat of
           Some date \<Rightarrow> Some date
         | None \<Rightarrow>
             (case euroSlashFormat of
                Some date \<Rightarrow> Some date
              | None \<Rightarrow> dateFromString P trimmed))"

definition parseDate :: "platform \<Rightarrow> string \<Rightarrow> DataSourceType \<Rightarrow> Date option" where
  "parseDate P dateString dataSource =
     (if dateString = [] then None
      else (let trimmed = trim dateString;
                bySource =
                  (if dataSource = GOOGLE_ADS then
                     (case threeNumbers CHR ''-'' 4 4 2 2 2 2 trimmed of
                        Some (y, m, d) \<Rightarrow> validatedDateOfParts y m d
                      | None \<Rightarrow> None)
                   else if dataSource = MICROSOFT_ADS then
                     (case threeNumbers CHR ''-'' 2 2 2 2 4 4 trimmed of
                        Some (d, m, y) \<Rightarrow> validatedDateOfParts y m d
                      | None \<Rightarrow> None)
                   else None)
            in case bySource of
                 Some date \<Rightarrow> Some date
               | None \<Rightarrow> parseDateFallback P trimmed))"

definition parseEuropeanDate :: "string \<Rightarrow> string" where
  "parseEuropeanDate dateStr =
     (if dateStr = [] then []
      else (case split CHR ''-'' dateStr of
              [a, b, c] \<Rightarrow>
                (case parseInt a of
                   Some firstPart \<Rightarrow>
                     if firstPart \<ge> 1 \<and> firstPart \<le> 31 then c @ ''-'' @ b @ ''-'' @ a
                     else dateStr
                 | None \<Rightarrow> dateStr)
            | _ \<Rightarrow> dateStr))"

text \<open>The account name of the second source: domain, language and display name.\<close>

definition accountWithoutCode :: "string \<Rightarrow> string" where
  "accountWithoutCode accountName =
     trim (case splitStr '' ('' accountName of [] \<Rightarrow> [] | p # ps \<Rightarrow> p)"

definition isCountryDomain :: "string \<Rightarrow> bool" where
  "isCountryDomain s = (length s = 5 \<and> take 3 s = ''CV.'' \<and> list_all isLowerAZ (drop 3 s))"

definition extractDomainFromMicrosoftAccount :: "string \<Rightarrow> string" where
  "extractDomainFromMicrosoftAccount accountName =
     (let a = accountWithoutCode accountName
      in if includesStr a ''CVwizard'' then ''CVwizard.com''
         else if includesStr a ''Jobseeker'' then ''Jobseeker.com''
         else if isCountryDomain a then a
         else a)"

definition extractLanguageFromMicrosoftAccount :: "string \<Rightarrow> string" where
  "extractLanguageFromMicrosoftAccount accountName =
     (let a = accountWithoutCode accountName;
          parts = splitStr '' - '' a
      in if (includesStr a ''CVwizard'' \<or> includesStr a ''Jobseeker'') \<and> length parts > 1
         then trim (parts ! 1)
         else if isCountryDomain a \<and> drop 3 a \<noteq> [] then toUpperCase (drop 3 a)
         else [])"

definition truncateMicrosoftAccountName :: "string \<Rightarrow> string" where
  "truncateMicrosoftAccountName accountName =
     (case indexOf accountName '' ('' of
        Some openParenIndex \<Rightarrow> take openParenIndex accountName
      | None \<Rightarrow> accountName)"

text \<open>The fields of \<open>AdData\<close> that a column can be mapped to, and the two tables.\<close>

datatype AdField =
  F_Campaign | F_Domain_name | F_Account_name | F_Language | F_Campaign_type | F_Impr |
  F_Clicks | F_Cost | F_Conversions | F_Revenue | F_Status | F_Date

definition setField :: "AdField \<Rightarrow> string \<Rightarrow> AdData \<Rightarrow> AdData" where
  "setField f v r =
     (case f of
        F_Campaign \<Rightarrow> r\<lparr>Campaign := v\<rparr>
      | F_Domain_name \<Rightarrow> r\<lparr>Domain_name := v\<rparr>
      | F_Account_name \<Rightarrow> r\<lparr>Account_name := v\<rparr>
      | F_Language \<Rightarrow> r\<lparr>Language := v\<rparr>
      | F_Campaign_type \<Rightarrow> r\<lparr>Campaign_type := v\<rparr>
      | F_Impr \<Rightarrow> r\<lparr>Impr := v\<rparr>
      | F_Clicks \<Rightarrow> r\<lparr>Clicks := v\<rparr>
      | F_Cost \<Rightarrow> r\<lparr>Cost := v\<rparr>
      | F_Conversions \<Rightarrow> r\<lparr>Conversions := v\<rparr>
      | F_Revenue \<Rightarrow> r\<lparr>Revenue := v\<rparr>
      | F_Status \<Rightarrow> r\<lparr>Status := v\<rparr>
      | F_Date \<Rightarrow> r\<lparr>Date := v\<rparr>)"

text \<open>
  A table lookup gives \<open>None\<close> for a column that is absent or mapped to \<open>null\<close>: both are
  skipped by \<open>if (mappedKey)\<close>.
\<close>

definition googleAdsFieldMap :: "string \<Rightarrow> AdField option" where
  "googleAdsFieldMap key =
     map_of
       [(''Campaign Name'', F_Campaign), (''Domain'', F_Domain_name),
        (''Account Name'', F_Account_name), (''Language'', F_Language),
        (''Channel Type'', F_Campaign_type), (''Impressions'', F_Impr), (''Clicks'', F_Clicks),
        (''Cost'', F_Cost), (''Conversions'', F_Conversions), (''Conv. Value'', F_Revenue),
        (''Status'', F_Status), (''Date'', F_Date)] key"

definition microsoftAdsFieldMap :: "string \<Rightarrow> AdField option" where
  "microsoftAdsFieldMap key =
     map_of
       [(''Campaign'', F_Campaign), (''Campaign type'', F_Campaign_type),
        (''Impressions'', F_Impr), (''Clicks'', F_Clicks), (''Spend'', F_Cost),
        (''Conversions'', F_Conversions), (''Revenue'', F_Revenue),
        (''Campaign Status'', F_Status), (''Date'', F_Date)] key"

definition normalizeMicrosoftAdsFieldName :: "string \<Rightarrow> string" where
  "normalizeMicrosoftAdsFieldName fieldName =
     (let trimmed = trim fieldName
      in case map_of
              [(''campaign'', ''Campaign''), (''campaign type'', ''Campaign type''),
               (''campaign status'', ''Campaign Status''),
               (''average cost-per-click (cpc)'', ''Average Cost-per-Click (CPC)''),
               (''cost per acquisition (cpa)'', ''Cost per acquisition (CPA)''),
               (''conversion rate'', ''Conversion Rate''),
               (''revenue per conversion'', ''Revenue Per Conversion''),
               (''impressions'', ''Impressions''), (''clicks'', ''Clicks''), (''spend'', ''Spend''),
               (''conversions'', ''Conversions''), (''revenue'', ''Revenue''), (''ctr'', ''CTR''),
               (''roas'', ''ROAS''), (''account'', ''Account''), (''date'', ''Date'')]
              (toLowerCase trimmed) of
           Some normalizedName \<Rightarrow> normalizedName
         | None \<Rightarrow> trimmed)"

text \<open>
  \<open>mapGoogleSheetRow\<close>. A raw row is the list of its columns and values in the order of the
  header, each column once, as the keys of an object are.
\<close>

definition initialMappedRow :: AdData where
  "initialMappedRow =
     \<lparr>Campaign = [], Domain_name = [], Account_name = [], Language = [], Campaign_type = [],
      Status = [], Date = [], processedDate = None, Impr = [], Clicks = [], Cost = [],
      Conversions = [], Revenue = [], Profit = [], CLV = [], Click_share = ''0%'',
      Search_impr_share = ''0%'', Impr_Abs_Top = ''0%'', Impr_Top = ''0%'',
      CTR = None, CPC = None, CPA = None, Conv_rate = None, ROAS = None\<rparr>"

definition withProfit :: "platform \<Rightarrow> AdData \<Rightarrow> AdData" where
  "withProfit P mappedRow =
     (let revenue' = parseNumericValue P (Revenue mappedRow);
          cost' = parseNumericValue P (Cost mappedRow)
      in mappedRow\<lparr>Profit := numberToString P (revenue' - cost')\<rparr>)"

definition mapGoogleSheetRow :: "platform \<Rightarrow> (string \<times> string) list \<Rightarrow> DataSourceType \<Rightarrow> AdData" where
  "mapGoogleSheetRow P row dataSource =
     (let mapped =
            (if dataSource = GOOGLE_ADS then
               (let m = foldl (\<lambda>mappedRow (key, v).
                                 case googleAdsFieldMap key of
                                   Some mappedKey \<Rightarrow> setField mappedKey v mappedRow
                                 | None \<Rightarrow> mappedRow)
                          initialMappedRow row
                in if Profit m = [] \<and> Revenue m \<noteq> [] \<and> Cost m \<noteq> [] then withProfit P m else m)
             else if dataSource = MICROSOFT_ADS then
               (let m = foldl (\<lambda>mappedRow (key, v).
                                 case microsoftAdsFieldMap (normalizeMicrosoftAdsFieldName key) of
                                   Some mappedKey \<Rightarrow> setField mappedKey v mappedRow
                                 | None \<Rightarrow> mappedRow)
                          initialMappedRow row;
                    m2 = (case map_of row ''Account'' of
                            Some account \<Rightarrow>
                              if account \<noteq> []
                              then m\<lparr>Domain_name := extractDomainFromMicrosoftAccount account,
                                     Account_name := truncateMicrosoftAccountName account,
                                     Language := extractLanguageFromMicrosoftAccount account\<rparr>
                              else m
                          | None \<Rightarrow> m)
                in if Revenue m2 \<noteq> [] \<and> Cost m2 \<noteq> [] then withProfit P m2 else m2)
             else initialMappedRow);
          dated = (if dataSource = MICROSOFT_ADS \<and> Date mapped \<noteq> []
                   then mapped\<lparr>Date := parseEuropeanDate (Date mapped)\<rparr> else mapped)
      in dated\<lparr>processedDate := parseDate P (Date dated) dataSource\<rparr>)"

text \<open>
  \<open>processGoogleSheetData\<close>: the function mapped over the raw rows, and the filter on the
  campaign name and the date string.
\<close>

definition processRow :: "platform \<Rightarrow> DataSourceType \<Rightarrow> (string \<times> string) list \<Rightarrow> AdData" where
  "processRow P dataSource row =
     (let mappedRow = mapGoogleSheetRow P row dataSource
      in if Date mappedRow \<noteq> []
         then (let mappedRow' =
                     (if dataSource = MICROSOFT_ADS
                      then mappedRow\<lparr>Date := parseEuropeanDate (Date mappedRow)\<rparr>
                      else mappedRow)
               in case parseDate P (Date mappedRow') dataSource of
                    Some d \<Rightarrow> mappedRow'\<lparr>processedDate := Some d\<rparr>
                  | None \<Rightarrow> mappedRow')
         else mappedRow)"

definition processGoogleSheetData ::
  "platform \<Rightarrow> (string \<times> string) list list \<Rightarrow> DataSourceType \<Rightarrow> AdData list" where
  "processGoogleSheetData P rows dataSource =
     filter (\<lambda>row. Campaign row \<noteq> [] \<and> Date row \<noteq> []) (map (processRow P dataSource) rows)"

section \<open>Filter options\<close>

record FilterOptions =
  accounts :: "string list"
  languages :: "string list"
  campaignTypes :: "string list"
  domains :: "string list"

text \<open>\<open>[...new Set(xs)]\<close>: the distinct values in the order of their first occurrence.\<close>

fun distinctValues :: "'a list \<Rightarrow> 'a list" where
  "distinctValues [] = []"
| "distinctValues (x # xs) = x # removeAll x (distinctValues xs)"

definition extractFilterOptions :: "AdData list \<Rightarrow> FilterOptions" where
  "extractFilterOptions data =
     \<lparr>accounts = distinctValues (map Account_name data),
      languages = distinctValues (map Language data),
      campaignTypes = distinctValues (map Campaign_type data),
      domains = distinctValues (map Domain_name data)\<rparr>"

section \<open>Trend data\<close>

text \<open>The period key of a date (lines 242 to 265 of the data processor).\<close>

definition periodKey :: "TimeUnit \<Rightarrow> Date \<Rightarrow> string" where
  "periodKey timeUnit date =
     (case timeUnit of
        Day \<Rightarrow>
          toString (Some (getFullYear date)) @ ''-'' @
          padStart (toString (Some (getMonth date + 1))) 2 CHR ''0'' @ ''-'' @
          padStart (toString (Some (getDate date))) 2 CHR ''0''
      | Week \<Rightarrow>
          (let w = getISOWeek date in toString (Some (year w)) @ ''-'' @ toString (Some (week w)))
      | Month \<Rightarrow> toString (Some (getFullYear date)) @ ''-'' @ toString (Some (getMonth date + 1))
      | Quarter \<Rightarrow>
          toString (Some (getFullYear date)) @ ''-Q'' @ toString (Some (getMonth date div 3 + 1))
      | Year \<Rightarrow> toString (Some (getFullYear date)))"

text \<open>
  \<open>groupedData\<close> is an object from period keys to rows. It is modelled by the list of its
  keys with their rows, in the order in which the keys were added. \<open>Object.keys\<close> lists the
  keys that are array indices first, in ascending order, and then the other keys in the
  order in which they were added.
\<close>

fun addToGroup :: "string \<Rightarrow> 'a \<Rightarrow> (string \<times> 'a list) list \<Rightarrow> (string \<times> 'a list) list" where
  "addToGroup k x [] = [(k, [x])]"
| "addToGroup k x ((k', xs) # g) =
     (if k = k' then (k', xs @ [x]) # g else (k', xs) # addToGroup k x g)"

definition isArrayIndex :: "string \<Rightarrow> bool" where
  "isArrayIndex s =
     (s \<noteq> [] \<and> list_all isDigit s \<and> (s = ''0'' \<or> hd s \<noteq> CHR ''0'') \<and>
      digitsValue 10 s < 4294967295)"

definition objectKeys :: "(string \<times> 'a) list \<Rightarrow> string list" where
  "objectKeys g =
     sort_key (digitsValue 10) (filter isArrayIndex (map fst g)) @
     filter (\<lambda>k. \<not> isArrayIndex k) (map fst g)"

text \<open>
  \<open>comparePeriods\<close>. For weeks and months the parts of the keys are read with \<open>Number\<close>; a
  missing part is \<open>undefined\<close>, and \<open>!==\<close> holds between any number and \<open>NaN\<close>.
\<close>

definition numberDiffers :: "int option option \<Rightarrow> int option option \<Rightarrow> bool" where
  "numberDiffers a b =
     (case (a, b) of
        (Some (Some i), Some (Some j)) \<Rightarrow> i \<noteq> j
      | (None, None) \<Rightarrow> False
      | _ \<Rightarrow> True)"

definition numberU :: "int option option \<Rightarrow> int option" where
  "numberU a = (case a of None \<Rightarrow> None | Some n \<Rightarrow> n)"

definition comparePeriods :: "platform \<Rightarrow> TimeUnit \<Rightarrow> string \<Rightarrow> string \<Rightarrow> error + int" where
  "comparePeriods P timeUnit a b =
     (if timeUnit = Day then Inr (localeCompare P a b)
      else if timeUnit = Week \<or> timeUnit = Month then
        (let aYear = elemAt (map toNumber (split CHR ''-'' a)) 0;
             aSub = elemAt (map toNumber (split CHR ''-'' a)) 1;
             bYear = elemAt (map toNumber (split CHR ''-'' b)) 0;
             bSub = elemAt (map toNumber (split CHR ''-'' b)) 1
         in if numberDiffers aYear bYear
            then Inr (nanToZero (numSub (numberU aYear) (numberU bYear)))
            else Inr (nanToZero (numSub (numberU aSub) (numberU bSub))))
      else if timeUnit = Quarter then
        (let aYear = elemAt (split CHR ''-'' a) 0; aQuarter = elemAt (split CHR ''-'' a) 1;
             bYear = elemAt (split CHR ''-'' b) 0; bQuarter = elemAt (split CHR ''-'' b) 1
         in if aYear \<noteq> bYear
            then Inr (nanToZero (numSub (parseIntU aYear) (parseIntU bYear)))
            else (case quarterNumber aQuarter of
                    Inl e \<Rightarrow> Inl e
                  | Inr aQNum \<Rightarrow>
                      (case quarterNumber bQuarter of
                         Inl e \<Rightarrow> Inl e
                       | Inr bQNum \<Rightarrow> Inr (nanToZero (numSub aQNum bQNum)))))
      else Inr (nanToZero (numSub (parseInt a) (parseInt b))))"

text \<open>
  \<open>generateTrendData\<close>: the rows get their dates, the rows without a date are skipped, the
  others are grouped by period key, the keys are sorted, and each group is summed up.
\<close>

definition groupByPeriod :: "TimeUnit \<Rightarrow> AdData list \<Rightarrow> (string \<times> AdData list) list" where
  "groupByPeriod timeUnit rows =
     foldl (\<lambda>groupedData row.
              case processedDate row of
                None \<Rightarrow> groupedData
              | Some date \<Rightarrow> addToGroup (periodKey timeUnit date) row groupedData)
       [] rows"

definition trendOf :: "platform \<Rightarrow> (string \<times> AdData list) list \<Rightarrow> string \<Rightarrow> TrendData" where
  "trendOf P groupedData p =
     (let periodData = (case map_of groupedData p of None \<Rightarrow> [] | Some rows \<Rightarrow> rows);
          kpiSummary = calculateKpiSummary P periodData
      in KpiSummary.extend kpiSummary (TrendData.fields p))"

definition generateTrendData :: "platform \<Rightarrow> AdData list \<Rightarrow> TimeUnit \<Rightarrow> error + TrendData list" where
  "generateTrendData P data timeUnit =
     (let dataWithProcessedDates = map (withProcessedDate P) data;
          groupedData = groupByPeriod timeUnit dataWithProcessedDates
      in case arraySort (comparePeriods P timeUnit) (objectKeys groupedData) of
           Inl e \<Rightarrow> Inl e
         | Inr periods \<Rightarrow> Inr (map (trendOf P groupedData) periods))"

section \<open>Example inputs\<close>

text \<open>
  A platform for the examples. Its \<open>parseFloat\<close> reads integers in decimal digits, its
  \<open>new Date(string)\<close> reads the date form \<open>YYYY-MM-DD\<close> of ECMA-262 (with the offset 0 to UTC)
  and nothing else, its \<open>localeCompare\<close> compares character by character, and its number
  printer prints the integer part.
\<close>

fun compareStrings :: "string \<Rightarrow> string \<Rightarrow> int" where
  "compareStrings [] [] = 0"
| "compareStrings [] (y # ys) = - 1"
| "compareStrings (x # xs) [] = 1"
| "compareStrings (x # xs) (y # ys) =
     (if (of_char x :: nat) < of_char y then - 1
      else if (of_char y :: nat) < of_char x then 1
      else compareStrings xs ys)"

definition isoDateFromString :: "string \<Rightarrow> Date option" where
  "isoDateFromString s =
     (case threeNumbers CHR ''-'' 4 4 2 2 2 2 s of
        None \<Rightarrow> None
      | Some (y, m, d) \<Rightarrow>
          (case (parseInt y, parseInt m, parseInt d) of
             (Some yn, Some mn, Some dn) \<Rightarrow>
               if 1 \<le> mn \<and> mn \<le> 12 \<and> 1 \<le> dn \<and> dn \<le> MakeDay yn mn 1 - MakeDay yn (mn - 1) 1
               then Some (MakeDate (MakeDay yn (mn - 1) dn) 0)
               else None
           | _ \<Rightarrow> None))"

definition examplePlatform :: platform where
  "examplePlatform =
     \<lparr>parseFloat = (\<lambda>s. map_option real_of_int (parseInt s)),
      dateFromString = isoDateFromString,
      localeCompare = compareStrings,
      numberToString = (\<lambda>x. toString (Some \<lfloor>x\<rfloor>))\<rparr>"

text \<open>A bucket of a series with a revenue and nothing else.\<close>

definition bucket :: "string \<Rightarrow> real \<Rightarrow> TrendData" where
  "bucket p v =
     \<lparr>impressions = 0, clicks = 0, cost = 0, conversions = 0, revenue = v, profit = 0,
      ctr = 0, cpc = 0, cpa = 0, convRate = 0, roas = 0, clv = 0, period = p\<rparr>"




text \<open>
  A row with a campaign, an account, a date string and its five counters (impressions,
  clicks, cost, conversions, revenue). The two rows of \<open>exampleRows\<close> are the scenario of the
  specification; the first row of \<open>exampleUndated\<close> has a date string that nothing parses.
\<close>

definition adRow :: "string \<Rightarrow> string \<Rightarrow> string \<Rightarrow> string list \<Rightarrow> AdData" where
  "adRow campaign account date counters =
     \<lparr>Campaign = campaign, Domain_name = [], Account_name = account, Language = [],
      Campaign_type = [], Status = [], Date = date, processedDate = None,
      Impr = counters ! 0, Clicks = counters ! 1, Cost = counters ! 2,
      Conversions = counters ! 3, Revenue = counters ! 4, Profit = [], CLV = [],
      Click_share = ''0%'', Search_impr_share = ''0%'', Impr_Abs_Top = ''0%'', Impr_Top = ''0%'',
      CTR = None, CPC = None, CPA = None, Conv_rate = None, ROAS = None\<rparr>"

definition exampleRows :: "AdData list" where
  "exampleRows =
     [adRow ''A'' ''X'' ''2024-03-01'' [''200'', ''20'', ''100'', ''5'', ''150''],
      adRow ''B'' ''X'' ''2024-03-02'' [''100'', ''10'', ''50'', ''0'', ''0'']]"

definition exampleUndated :: "AdData list" where
  "exampleUndated =
     [adRow ''C'' ''Y'' ''soon'' [''10'', ''1'', ''5'', ''0'', ''0''],
      adRow ''A'' ''X'' ''2024-03-01'' [''200'', ''20'', ''100'', ''5'', ''150'']]"

definition datedRow :: "string \<Rightarrow> Date \<Rightarrow> AdData" where
  "datedRow campaign t =
     (adRow campaign ''X'' [] [''1'', ''1'', ''1'', ''1'', ''1''])\<lparr>processedDate := Some t\<rparr>"

definition exampleDated :: "AdData list" where
  "exampleDated =
     [datedRow ''last'' (new_Date 2024 0 31 + 86399999),
      datedRow ''first'' (new_Date 2024 0 1),
      datedRow ''after'' (new_Date 2024 1 1)]"

definition exampleSheet :: "(string \<times> string) list list" where
  "exampleSheet =
     [[(''Campaign Name'', ''Spring''), (''Account Name'', ''Shop''), (''Date'', ''2024-03-01''),
       (''Cost'', ''100''), (''Conv. Value'', ''150'')],
      [(''Campaign Name'', ''Summer''), (''Account Name'', ''Outlet''), (''Date'', ''soon''),
       (''Cost'', ''50''), (''Conv. Value'', ''0'')],
      [(''Campaign Name'', ''Autumn''), (''Account Name'', ''Depot''), (''Date'', []),
       (''Cost'', ''50''), (''Conv. Value'', ''0'')]]"

section \<open>Claims about the ISO week\<close>

text \<open>
  C4. \<open>getISOWeek\<close> maps 1 January 2024 to week 1 of 2024, 31 December 2023 to week 52 of
  2023, and 1 January 2023 to week 52 of 2022. The dates are built as the dashboard builds
  them, \<open>new Date(year, monthIndex, day)\<close>.
\<close>

theorem getISOWeek_examples:
  "getISOWeek (new_Date 2024 0 1) = \<lparr>year = 2024, week = 1\<rparr> \<and>
   getISOWeek (new_Date 2023 11 31) = \<lparr>year = 2023, week = 52\<rparr> \<and>
   getISOWeek (new_Date 2023 0 1) = \<lparr>year = 2022, week = 52\<rparr>"
  by code_simp




section \<open>Facts about period keys\<close>

lemma digit_cases: "k < (10::nat) \<Longrightarrow> k \<in> {0, 1, 2, 3, 4, 5, 6, 7, 8, 9}"
  by (simp; arith)

lemma digitChar_props:
  assumes "n < 10"
  shows "isDigit (digitChar n)" and "digitValue (digitChar n) = int n"
    and "\<not> isWhiteSpace (digitChar n)" and "digitChar n \<noteq> CHR ''-''" and "digitChar n \<noteq> CHR ''+''"
    and "digitChar n \<noteq> CHR ''x''" and "digitChar n \<noteq> CHR ''X''"
  using digit_cases [OF assms]
  by (auto simp add: digitChar_def isDigit_def digitValue_def isWhiteSpace_def)



lemma digitsOf_digits: "c \<in> set (digitsOf n) \<Longrightarrow> isDigit c"
proof (induction n rule: digitsOf.induct)
  case (1 n)
  show ?case
  proof (cases "n < 10")
    case True
    with "1.prems" show ?thesis
      by (subst (asm) digitsOf.simps) (simp add: digitChar_props(1))
  next
    case False
    with "1" show ?thesis
      by (subst (asm) (2) digitsOf.simps) (auto simp add: digitChar_props(1))
  qed
qed













section \<open>Claims about the predecessor key\<close>




section \<open>Facts about sorting and the comparison table\<close>

lemma insertBy_set: "insertBy cmp x ys = Inr r \<Longrightarrow> set r = insert x (set ys)"
proof (induction ys arbitrary: r)
  case Nil
  then show ?case by auto
next
  case (Cons y ys)
  from Cons.prems obtain c where c: "cmp x y = Inr c" by (cases "cmp x y") simp_all
  show ?case
  proof (cases "c \<le> 0")
    case True
    with Cons.prems c show ?thesis by auto
  next
    case False
    with Cons.prems c obtain r' where r': "insertBy cmp x ys = Inr r'" "r = y # r'"
      by (cases "insertBy cmp x ys") simp_all
    with Cons.IH [OF r'(1)] show ?thesis by auto
  qed
qed

lemma arraySort_set: "arraySort cmp xs = Inr ys \<Longrightarrow> set ys = set xs"
proof (induction xs arbitrary: ys)
  case Nil
  then show ?case by auto
next
  case (Cons x xs)
  from Cons.prems obtain s where s: "arraySort cmp xs = Inr s" "insertBy cmp x s = Inr ys"
    by (cases "arraySort cmp xs") simp_all
  from Cons.IH [OF s(1)] insertBy_set [OF s(2)] show ?case by simp
qed

lemma insertBy_length: "insertBy cmp x ys = Inr r \<Longrightarrow> length r = Suc (length ys)"
proof (induction ys arbitrary: r)
  case Nil
  then show ?case by auto
next
  case (Cons y ys)
  from Cons.prems obtain c where c: "cmp x y = Inr c" by (cases "cmp x y") simp_all
  show ?case
  proof (cases "c \<le> 0")
    case True
    with Cons.prems c show ?thesis by auto
  next
    case False
    with Cons.prems c obtain r' where r': "insertBy cmp x ys = Inr r'" "r = y # r'"
      by (cases "insertBy cmp x ys") simp_all
    with Cons.IH [OF r'(1)] show ?thesis by auto
  qed
qed

lemma arraySort_length: "arraySort cmp xs = Inr ys \<Longrightarrow> length ys = length xs"
proof (induction xs arbitrary: ys)
  case Nil
  then show ?case by auto
next
  case (Cons x xs)
  from Cons.prems obtain s where s: "arraySort cmp xs = Inr s" "insertBy cmp x s = Inr ys"
    by (cases "arraySort cmp xs") simp_all
  from Cons.IH [OF s(1)] insertBy_length [OF s(2)] show ?case by simp
qed





lemma generateComparisonTable_rows:
  assumes "generateComparisonTable P timeUnit metric filteredTrendData completeTrendData = Inr rows"
    and "row \<in> set rows"
  shows "\<exists>sortedTrendData i.
           arraySort (\<lambda>a b. sortPeriodsOldestToNewest P timeUnit (period a) (period b))
             filteredTrendData = Inr sortedTrendData \<and>
           i < length sortedTrendData \<and>
           row = comparisonAt P timeUnit metric sortedTrendData completeTrendData i"
proof (cases "length filteredTrendData < 2")
  case True
  with assms show ?thesis by (simp add: generateComparisonTable_def)
next
  case False
  with assms(1) obtain s where
    s: "arraySort (\<lambda>a b. sortPeriodsOldestToNewest P timeUnit (period a) (period b))
          filteredTrendData = Inr s"
    and r: "arraySort (\<lambda>a b. sortPeriodsNewestToOldest P timeUnit (rowPeriod a) (rowPeriod b))
          (map (comparisonAt P timeUnit metric s completeTrendData) [0..<length s]) = Inr rows"
    by (auto simp add: generateComparisonTable_def split: sum.splits)
  from arraySort_set [OF r] assms(2)
  have "row \<in> comparisonAt P timeUnit metric s completeTrendData ` {0..<length s}" by simp
  with s show ?thesis by auto
qed






section \<open>Claims about the comparison table\<close>


text \<open>
  The bucket before the current one also stays the previous period when its key is not the
  predecessor key and no other step finds a record: with January and March only, the row of
  March has the value of January as its previous value.
\<close>

lemma previous_from_other_month:
  "previousPeriodKey examplePlatform Month ''2024-3'' = ''2024-2'' \<and>
   generateComparisonTable examplePlatform Month revenue
     [bucket ''2024-1'' 20, bucket ''2024-3'' 10] [bucket ''2024-1'' 20, bucket ''2024-3'' 10]
   = Inr [\<lparr>rowPeriod = ''2024-3'', current = 10, previous = Some 20, change = Some (- 50),
             previousYear = None, yearOverYearChange = None\<rparr>,
          \<lparr>rowPeriod = ''2024-1'', current = 20, previous = None, change = None,
             previousYear = None, yearOverYearChange = None\<rparr>]"
  by code_simp






section \<open>Claims about the metrics\<close>

text \<open>
  The counters are the values that \<open>parseNumericValue\<close> reads from the five counter fields,
  as real numbers; the rounding of doubles is not modelled.
\<close>

lemma foldl_addRow:
  "impressions (foldl (addRow P) acc data) = impressions acc + total P Impr data \<and>
   clicks (foldl (addRow P) acc data) = clicks acc + total P Clicks data \<and>
   cost (foldl (addRow P) acc data) = cost acc + total P Cost data \<and>
   conversions (foldl (addRow P) acc data) = conversions acc + total P Conversions data \<and>
   revenue (foldl (addRow P) acc data) = revenue acc + total P Revenue data \<and>
   profit (foldl (addRow P) acc data) = profit acc + (total P Revenue data - total P Cost data)"
proof (induction data arbitrary: acc)
  case Nil
  show ?case by (simp add: total_def)
next
  case (Cons row data)
  have a: "impressions (addRow P acc row) = impressions acc + parseNumericValue P (Impr row)"
    "clicks (addRow P acc row) = clicks acc + parseNumericValue P (Clicks row)"
    "cost (addRow P acc row) = cost acc + parseNumericValue P (Cost row)"
    "conversions (addRow P acc row) = conversions acc + parseNumericValue P (Conversions row)"
    "revenue (addRow P acc row) = revenue acc + parseNumericValue P (Revenue row)"
    "profit (addRow P acc row)
       = profit acc + (parseNumericValue P (Revenue row) - parseNumericValue P (Cost row))"
    by (simp_all add: addRow_def Let_def)
  show ?case
    using Cons.IH [of "addRow P acc row"] by (simp add: a total_def)
qed

text \<open>
  C6. The summary holds the sums of the five counters, and each rate of the summary is the
  ratio of the two sums when the sum in the denominator is positive, and 0 otherwise (so 0
  when that sum is 0). It is not the mean of the rates of the rows: for the two rows of the
  example the summary has a return on ad spend of \<open>150 / 150 = 1\<close>, while the rows have
  \<open>3 / 2\<close> and \<open>0\<close>, whose mean is \<open>3 / 4\<close>.
\<close>

theorem calculateKpiSummary_sums:
  "impressions (calculateKpiSummary P data) = total P Impr data \<and>
   clicks (calculateKpiSummary P data) = total P Clicks data \<and>
   cost (calculateKpiSummary P data) = total P Cost data \<and>
   conversions (calculateKpiSummary P data) = total P Conversions data \<and>
   revenue (calculateKpiSummary P data) = total P Revenue data \<and>
   ctr (calculateKpiSummary P data)
     = (if total P Impr data > 0 then total P Clicks data / total P Impr data else 0) \<and>
   cpc (calculateKpiSummary P data)
     = (if total P Clicks data > 0 then total P Cost data / total P Clicks data else 0) \<and>
   cpa (calculateKpiSummary P data)
     = (if total P Conversions data > 0 then total P Cost data / total P Conversions data else 0) \<and>
   convRate (calculateKpiSummary P data)
     = (if total P Clicks data > 0 then total P Conversions data / total P Clicks data else 0) \<and>
   roas (calculateKpiSummary P data)
     = (if total P Cost data > 0 then total P Revenue data / total P Cost data else 0) \<and>
   clv (calculateKpiSummary P data)
     = (if total P Conversions data > 0 then total P Revenue data / total P Conversions data else 0)"
  using foldl_addRow [of P initialSummary data]
  by (simp add: calculateKpiSummary_def Let_def initialSummary_def)

theorem calculateKpiSummary_sums_witness:
  "cost (calculateKpiSummary examplePlatform exampleRows) = 150 \<and>
   revenue (calculateKpiSummary examplePlatform exampleRows) = 150 \<and>
   roas (calculateKpiSummary examplePlatform exampleRows) = 1 \<and>
   cpa (calculateKpiSummary examplePlatform exampleRows) = 30 \<and>
   convRate (calculateKpiSummary examplePlatform exampleRows) = 1 / 6 \<and>
   ctr (calculateKpiSummary examplePlatform exampleRows) = 1 / 10 \<and>
   map ROAS (calculateMetrics examplePlatform exampleRows) = [Some (3 / 2), Some 0]"
proof -
  have t: "total examplePlatform Impr exampleRows = 300"
    "total examplePlatform Clicks exampleRows = 30"
    "total examplePlatform Cost exampleRows = 150"
    "total examplePlatform Conversions exampleRows = 5"
    "total examplePlatform Revenue exampleRows = 150"
    by code_simp+
  have m: "map ROAS (calculateMetrics examplePlatform exampleRows) = [Some (3 / 2), Some 0]"
    by code_simp
  show ?thesis
    using calculateKpiSummary_sums [of examplePlatform exampleRows] m by (simp add: t)
qed

text \<open>
  C7. For a row whose four denominators (impressions, clicks, cost and conversions) are not
  negative, as the counters of a canonical record are, each metric is its numerator divided by
  its denominator, and 0 when the denominator is 0; the profit is revenue minus cost. The
  profit and the customer lifetime value are stored as the strings of these numbers. (A
  negative denominator also gives 0, since the code tests \<open>> 0\<close>.)
\<close>

theorem calculateMetrics_row:
  assumes "i < length data"
    and "0 \<le> parseNumericValue P (Impr (data ! i))"
    and "0 \<le> parseNumericValue P (Clicks (data ! i))"
    and "0 \<le> parseNumericValue P (Cost (data ! i))"
    and "0 \<le> parseNumericValue P (Conversions (data ! i))"
  shows
    "CTR (calculateMetrics P data ! i)
       = Some (if parseNumericValue P (Impr (data ! i)) = 0 then 0
               else parseNumericValue P (Clicks (data ! i)) / parseNumericValue P (Impr (data ! i))) \<and>
     CPC (calculateMetrics P data ! i)
       = Some (if parseNumericValue P (Clicks (data ! i)) = 0 then 0
               else parseNumericValue P (Cost (data ! i)) / parseNumericValue P (Clicks (data ! i))) \<and>
     CPA (calculateMetrics P data ! i)
       = Some (if parseNumericValue P (Conversions (data ! i)) = 0 then 0
               else parseNumericValue P (Cost (data ! i))
                    / parseNumericValue P (Conversions (data ! i))) \<and>
     Conv_rate (calculateMetrics P data ! i)
       = Some (if parseNumericValue P (Clicks (data ! i)) = 0 then 0
               else parseNumericValue P (Conversions (data ! i))
                    / parseNumericValue P (Clicks (data ! i))) \<and>
     ROAS (calculateMetrics P data ! i)
       = Some (if parseNumericValue P (Cost (data ! i)) = 0 then 0
               else parseNumericValue P (Revenue (data ! i)) / parseNumericValue P (Cost (data ! i))) \<and>
     CLV (calculateMetrics P data ! i)
       = numberToString P
           (if parseNumericValue P (Conversions (data ! i)) = 0 then 0
            else parseNumericValue P (Revenue (data ! i))
                 / parseNumericValue P (Conversions (data ! i))) \<and>
     Profit (calculateMetrics P data ! i)
       = numberToString P
           (parseNumericValue P (Revenue (data ! i)) - parseNumericValue P (Cost (data ! i)))"
  using assms by (simp add: calculateMetrics_def calculateMetricsRow_def Let_def)

theorem calculateMetrics_row_witness:
  "CTR (calculateMetrics examplePlatform exampleRows ! 1) = Some (1 / 10) \<and>
   CPC (calculateMetrics examplePlatform exampleRows ! 1) = Some 5 \<and>
   CPA (calculateMetrics examplePlatform exampleRows ! 1) = Some 0 \<and>
   Conv_rate (calculateMetrics examplePlatform exampleRows ! 1) = Some 0 \<and>
   ROAS (calculateMetrics examplePlatform exampleRows ! 1) = Some 0 \<and>
   CLV (calculateMetrics examplePlatform exampleRows ! 1) = ''0'' \<and>
   Profit (calculateMetrics examplePlatform exampleRows ! 1) = ''-50''"
proof -
  have v: "parseNumericValue examplePlatform (Impr (exampleRows ! 1)) = 100"
    "parseNumericValue examplePlatform (Clicks (exampleRows ! 1)) = 10"
    "parseNumericValue examplePlatform (Cost (exampleRows ! 1)) = 50"
    "parseNumericValue examplePlatform (Conversions (exampleRows ! 1)) = 0"
    "parseNumericValue examplePlatform (Revenue (exampleRows ! 1)) = 0"
    by code_simp+
  have n: "numberToString examplePlatform 0 = ''0''" "numberToString examplePlatform (- 50) = ''-50''"
    by code_simp+
  have l: "1 < length exampleRows" by (simp add: exampleRows_def)
  have h: "0 \<le> parseNumericValue examplePlatform (Impr (exampleRows ! 1))"
    "0 \<le> parseNumericValue examplePlatform (Clicks (exampleRows ! 1))"
    "0 \<le> parseNumericValue examplePlatform (Cost (exampleRows ! 1))"
    "0 \<le> parseNumericValue examplePlatform (Conversions (exampleRows ! 1))"
    unfolding v by simp_all
  note r = calculateMetrics_row [of 1 exampleRows examplePlatform, OF l h]
  show ?thesis using r unfolding v by (simp add: n)
qed

section \<open>Facts about the date-range filter\<close>




lemma list_all_digitsOf: "list_all isDigit (digitsOf n)"
  using digitsOf_digits [of _ n] by (simp add: list_all_iff)



lemma padStart_zero: "padStart s 0 c = s"
  by (simp add: padStart_def)











lemma DayNumber_calendar: "DayNumber t = MakeDay (getFullYear t) (getMonth t) (getDate t)"
  using MakeDay_of_time [of t 0] by (simp add: getFullYear_def getMonth_def getDate_def)

lemma withProcessedDate_undated:
  "processedDate row = None \<Longrightarrow> dateFromString P (Date row) = None \<Longrightarrow>
   withProcessedDate P row = row"
  by (simp add: withProcessedDate_def)

lemma filterByDateRange_dated:
  assumes "startDate dateRange \<noteq> [] \<or> endDate dateRange \<noteq> []"
    and "r \<in> set (filterByDateRange P data dateRange)"
  shows "processedDate r \<noteq> None"
  using assms by (auto simp add: filterByDateRange_def Let_def split: option.splits)

section \<open>Claims about the date-range filter\<close>




text \<open>
  C10. A row with no \<open>processedDate\<close> whose \<open>Date\<close> string does not parse is dropped as soon
  as one bound is not empty, whatever the bounds are, and the result is shorter than the
  data; with both bounds empty the data is returned as it is, the row included.
\<close>

theorem filterByDateRange_undated:
  assumes "row \<in> set data" and "processedDate row = None"
    and "dateFromString P (Date row) = None"
  shows
    "(startDate dateRange \<noteq> [] \<or> endDate dateRange \<noteq> [] \<longrightarrow>
        row \<notin> set (filterByDateRange P data dateRange) \<and>
        length (filterByDateRange P data dateRange) < length data) \<and>
     (startDate dateRange = [] \<and> endDate dateRange = [] \<longrightarrow>
        filterByDateRange P data dateRange = data \<and>
        row \<in> set (filterByDateRange P data dateRange))"
proof (intro conjI impI)
  assume b: "startDate dateRange \<noteq> [] \<or> endDate dateRange \<noteq> []"
  show "row \<notin> set (filterByDateRange P data dateRange)"
    using filterByDateRange_dated [OF b, of row P data] assms(2) by blast
  have m: "row \<in> set (map (withProcessedDate P) data)"
    using assms withProcessedDate_undated [OF assms(2,3)] by force
  have "length (filter Q (map (withProcessedDate P) data)) < length (map (withProcessedDate P) data)"
    if "\<not> Q row" for Q
    using m that by (rule length_filter_less)
  then show "length (filterByDateRange P data dateRange) < length data"
    using b assms(2) by (simp add: filterByDateRange_def Let_def)
next
  assume "startDate dateRange = [] \<and> endDate dateRange = []"
  then show "filterByDateRange P data dateRange = data" by (simp add: filterByDateRange_def)
  then show "row \<in> set (filterByDateRange P data dateRange)" using assms(1) by simp
qed

theorem filterByDateRange_undated_witness:
  "exampleUndated ! 0 \<notin> set (filterByDateRange examplePlatform exampleUndated
                            \<lparr>startDate = ''1900-01-01'', endDate = ''2999-12-31''\<rparr>) \<and>
   length (filterByDateRange examplePlatform exampleUndated
             \<lparr>startDate = ''1900-01-01'', endDate = ''2999-12-31''\<rparr>)
     < length exampleUndated \<and>
   filterByDateRange examplePlatform exampleUndated \<lparr>startDate = [], endDate = []\<rparr> = exampleUndated \<and>
   exampleUndated ! 0 \<in> set (filterByDateRange examplePlatform exampleUndated
                            \<lparr>startDate = [], endDate = []\<rparr>)"
proof -
  have m: "exampleUndated ! 0 \<in> set exampleUndated" by (simp add: exampleUndated_def)
  have p: "processedDate (exampleUndated ! 0) = None" by (simp add: exampleUndated_def adRow_def)
  have d: "dateFromString examplePlatform (Date (exampleUndated ! 0)) = None"
    by code_simp
  note t = filterByDateRange_undated [OF m p d]
  show ?thesis
    using t [of "\<lparr>startDate = ''1900-01-01'', endDate = ''2999-12-31''\<rparr>"]
      t [of "\<lparr>startDate = [], endDate = []\<rparr>"] m
    by simp
qed

section \<open>Claims about the schema mapper\<close>

lemma distinctValues_set: "set (distinctValues xs) = set xs"
  by (induction xs) auto

lemma parseDate_empty: "parseDate P [] dataSource = None"
  by (simp add: parseDate_def)

lemma mapGoogleSheetRow_processedDate:
  "processedDate (mapGoogleSheetRow P row dataSource)
   = parseDate P (Date (mapGoogleSheetRow P row dataSource)) dataSource"
  by (simp add: mapGoogleSheetRow_def Let_def)

lemma processRow_Date_GOOGLE:
  "Date (processRow P GOOGLE_ADS row) = Date (mapGoogleSheetRow P row GOOGLE_ADS)"
  by (simp add: processRow_def Let_def split: option.splits)

lemma processRow_processedDate:
  "processedDate (processRow P dataSource row)
   = (case parseDate P (Date (processRow P dataSource row)) dataSource of
        Some d \<Rightarrow> Some d
      | None \<Rightarrow> parseDate P (Date (mapGoogleSheetRow P row dataSource)) dataSource)"
proof (cases "Date (mapGoogleSheetRow P row dataSource) = []")
  case True
  then have "processRow P dataSource row = mapGoogleSheetRow P row dataSource"
    by (simp add: processRow_def Let_def)
  with True show ?thesis
    using mapGoogleSheetRow_processedDate [of P row dataSource] by (simp add: parseDate_empty)
next
  case False
  define m where "m = mapGoogleSheetRow P row dataSource"
  define m' where
    "m' = (if dataSource = MICROSOFT_ADS then m\<lparr>Date := parseEuropeanDate (Date m)\<rparr> else m)"
  have p0: "processRow P dataSource row
           = (if Date m \<noteq> []
              then (case parseDate P (Date m') dataSource of
                      Some d \<Rightarrow> m'\<lparr>processedDate := Some d\<rparr>
                    | None \<Rightarrow> m')
              else m)"
    unfolding processRow_def Let_def m_def m'_def by (rule refl)
  have ne: "Date m \<noteq> []" using False by (simp add: m_def)
  have p: "processRow P dataSource row
           = (case parseDate P (Date m') dataSource of
                Some d \<Rightarrow> m'\<lparr>processedDate := Some d\<rparr>
              | None \<Rightarrow> m')"
    by (simp only: p0 if_P [OF ne])
  have d: "Date (processRow P dataSource row) = Date m'"
    unfolding p by (cases "parseDate P (Date m') dataSource") simp_all
  have "processedDate m' = processedDate m" by (simp add: m'_def)
  then have pm: "processedDate m' = parseDate P (Date m) dataSource"
    using mapGoogleSheetRow_processedDate [of P row dataSource] by (simp add: m_def)
  show ?thesis
    unfolding d m_def [symmetric] unfolding p using pm
    by (cases "parseDate P (Date m') dataSource") simp_all
qed

text \<open>
  C2, as stated: a mapped row is kept only if its campaign name is not empty and its date is
  not empty and was parsed, so that a record whose date string fails every parse strategy is
  in no aggregation, no summary and no list of filter options. The filter of
  \<open>processGoogleSheetData\<close> tests the date string (\<open>row.Campaign && row.Date\<close>), not the parsed
  date: the second row of the example sheet has the date string \<open>soon\<close>, which no strategy
  parses; it is kept without a \<open>processedDate\<close>, its account is among the filter options, and
  its cost is part of the summary of the processed data.
\<close>

theorem unparsed_date_retained:
  "parseDate examplePlatform ''soon'' GOOGLE_ADS = None \<and>
   map Campaign (processGoogleSheetData examplePlatform exampleSheet GOOGLE_ADS)
     = [''Spring'', ''Summer''] \<and>
   map Date (processGoogleSheetData examplePlatform exampleSheet GOOGLE_ADS)
     = [''2024-03-01'', ''soon''] \<and>
   map processedDate (processGoogleSheetData examplePlatform exampleSheet GOOGLE_ADS)
     = [Some (new_Date 2024 2 1), None] \<and>
   accounts (extractFilterOptions (processGoogleSheetData examplePlatform exampleSheet GOOGLE_ADS))
     = [''Shop'', ''Outlet''] \<and>
   cost (calculateKpiSummary examplePlatform
           (processGoogleSheetData examplePlatform exampleSheet GOOGLE_ADS)) = 150"
  by code_simp

text \<open>
  C2, amended: a mapped row is kept if and only if its campaign name and its date string are
  not empty. Its \<open>processedDate\<close> is the parsed date string when that parses (for the first
  source the date string is the mapped one; for the second source it is reordered once more,
  and the date parsed by \<open>mapGoogleSheetRow\<close> stays when the reordered string does not parse),
  and it is absent otherwise. Every row that is kept, with or without a \<open>processedDate\<close>,
  has its account, language, campaign type and domain in the filter options extracted from
  the processed data.
\<close>

theorem processGoogleSheetData_retained:
  "(r \<in> set (processGoogleSheetData P rows dataSource) \<longleftrightarrow>
      (\<exists>row \<in> set rows. r = processRow P dataSource row) \<and> Campaign r \<noteq> [] \<and> Date r \<noteq> []) \<and>
   processedDate (processRow P dataSource row)
     = (case parseDate P (Date (processRow P dataSource row)) dataSource of
          Some d \<Rightarrow> Some d
        | None \<Rightarrow> parseDate P (Date (mapGoogleSheetRow P row dataSource)) dataSource) \<and>
   Date (processRow P GOOGLE_ADS row) = Date (mapGoogleSheetRow P row GOOGLE_ADS) \<and>
   (r \<in> set (processGoogleSheetData P rows dataSource) \<longrightarrow>
      Account_name r \<in> set (accounts (extractFilterOptions (processGoogleSheetData P rows dataSource))) \<and>
      Language r \<in> set (languages (extractFilterOptions (processGoogleSheetData P rows dataSource))) \<and>
      Campaign_type r
        \<in> set (campaignTypes (extractFilterOptions (processGoogleSheetData P rows dataSource))) \<and>
      Domain_name r \<in> set (domains (extractFilterOptions (processGoogleSheetData P rows dataSource))))"
proof -
  have a: "r \<in> set (processGoogleSheetData P rows dataSource) \<longleftrightarrow>
      (\<exists>row \<in> set rows. r = processRow P dataSource row) \<and> Campaign r \<noteq> [] \<and> Date r \<noteq> []"
    by (auto simp add: processGoogleSheetData_def)
  have c: "Account_name x \<in> set (accounts (extractFilterOptions data)) \<and>
      Language x \<in> set (languages (extractFilterOptions data)) \<and>
      Campaign_type x \<in> set (campaignTypes (extractFilterOptions data)) \<and>
      Domain_name x \<in> set (domains (extractFilterOptions data))" if "x \<in> set data" for x data
    using that by (simp add: extractFilterOptions_def distinctValues_set)
  show ?thesis
    using a processRow_processedDate [of P dataSource row] processRow_Date_GOOGLE [of P row] c
    by blast
qed

theorem processGoogleSheetData_retained_witness:
  "processRow examplePlatform GOOGLE_ADS (exampleSheet ! 1)
     \<in> set (processGoogleSheetData examplePlatform exampleSheet GOOGLE_ADS) \<and>
   Campaign (processRow examplePlatform GOOGLE_ADS (exampleSheet ! 1)) = ''Summer'' \<and>
   Date (processRow examplePlatform GOOGLE_ADS (exampleSheet ! 1)) = ''soon'' \<and>
   processedDate (processRow examplePlatform GOOGLE_ADS (exampleSheet ! 1)) = None \<and>
   ''Outlet'' \<in> set (accounts (extractFilterOptions
                         (processGoogleSheetData examplePlatform exampleSheet GOOGLE_ADS)))"
proof -
  let ?r = "processRow examplePlatform GOOGLE_ADS (exampleSheet ! 1)"
  have f: "Campaign ?r = ''Summer''" "Date ?r = ''soon''" "Account_name ?r = ''Outlet''"
    by code_simp+
  have p: "parseDate examplePlatform ''soon'' GOOGLE_ADS = None" by code_simp
  have e: "\<exists>row \<in> set exampleSheet. ?r = processRow examplePlatform GOOGLE_ADS row"
    by (intro bexI [of _ "exampleSheet ! 1"]) (simp_all add: exampleSheet_def)
  note t = processGoogleSheetData_retained
    [of ?r examplePlatform exampleSheet GOOGLE_ADS "exampleSheet ! 1"]
  have m: "?r \<in> set (processGoogleSheetData examplePlatform exampleSheet GOOGLE_ADS)"
    using t e f by simp
  have d: "processedDate ?r = None"
    using t f p by simp 
  have o: "Account_name ?r \<in> set (accounts (extractFilterOptions
                         (processGoogleSheetData examplePlatform exampleSheet GOOGLE_ADS)))"
    using t m by blast
  show ?thesis using m f d o by simp
qed

section \<open>Facts about trend data\<close>

text \<open>
  The rows that have no date after \<open>generateTrendData\<close> has tried \<open>new Date(row.Date)\<close> are in
  no bucket of a series: the series of the data is the series of its dated rows.
\<close>

lemma groupByPeriod_dated:
  "foldl (\<lambda>groupedData row.
              case processedDate row of
                None \<Rightarrow> groupedData
              | Some date \<Rightarrow> addToGroup (periodKey timeUnit date) row groupedData)
       g rows
   = foldl (\<lambda>groupedData row.
              case processedDate row of
                None \<Rightarrow> groupedData
              | Some date \<Rightarrow> addToGroup (periodKey timeUnit date) row groupedData)
       g (filter (\<lambda>row. processedDate row \<noteq> None) rows)"
  by (induction rows arbitrary: g) (auto split: option.splits)

lemma generateTrendData_dated:
  "generateTrendData P data timeUnit
   = generateTrendData P (filter (\<lambda>row. processedDate (withProcessedDate P row) \<noteq> None) data)
       timeUnit"
proof -
  have "groupByPeriod timeUnit (map (withProcessedDate P) data)
        = groupByPeriod timeUnit
            (map (withProcessedDate P)
               (filter (\<lambda>row. processedDate (withProcessedDate P row) \<noteq> None) data))"
    unfolding groupByPeriod_def
    by (subst groupByPeriod_dated) (simp add: filter_map comp_def)
  then show ?thesis by (simp add: generateTrendData_def)
qed

text \<open>
  The first row of \<open>exampleUndated\<close>, whose date string is \<open>soon\<close>, is in no bucket of the daily
  series, and the rows of \<open>exampleDated\<close> make two months.
\<close>

lemma generateTrendData_examples:
  "map_sum id (map (\<lambda>t. (period t, cost t))) (generateTrendData examplePlatform exampleUndated Day)
     = Inr [(''2024-03-01'', 100)] \<and>
   map_sum id (map (\<lambda>t. (period t, clicks t))) (generateTrendData examplePlatform exampleDated Month)
     = Inr [(''2024-1'', 2), (''2024-2'', 1)]"
  by code_simp

end
